theory Spec2Isabelle
  imports Main "HOL-Library.Word" "HOL-Library.AList"
begin

unbundle bit_operations_syntax

section \<open>Strings\<close>

text \<open>
  An \<open>FString\<close> is a \<^typ>\<open>string\<close>. Only the operations that
  \<open>NormalizeHttpPath\<close> calls are modelled. The engine compares with \<open>StartsWith\<close>
  and \<open>EndsWith\<close> ignoring case by default, which makes no difference for the single
  argument \<open>"/"\<close> they get here.
\<close>

text \<open>
  Modelled from the spec: \<open>FChar::IsWhitespace\<close> is an engine function that
  \<open>TrimStartAndEndInline\<close> uses; the spec only says "trim leading/trailing whitespace".
  The white space of the C locale is taken: space, tab, line feed, vertical tab, form
  feed, carriage return.
\<close>

definition IsWhitespace :: "char \<Rightarrow> bool" where
  "IsWhitespace c =
     (c = CHR '' '' \<or> c = CHR 0x09 \<or> c = CHR 0x0A \<or> c = CHR 0x0B \<or> c = CHR 0x0C \<or> c = CHR 0x0D)"

definition TrimEnd :: "string \<Rightarrow> string" where
  "TrimEnd s = rev (dropWhile IsWhitespace (rev s))"

definition TrimStart :: "string \<Rightarrow> string" where
  "TrimStart s = dropWhile IsWhitespace s"

definition TrimStartAndEnd :: "string \<Rightarrow> string" where
  "TrimStartAndEnd s = TrimStart (TrimEnd s)"

definition StartsWith :: "string \<Rightarrow> string \<Rightarrow> bool" where
  "StartsWith s p = (p \<noteq> [] \<and> take (length p) s = p)"

definition EndsWith :: "string \<Rightarrow> string \<Rightarrow> bool" where
  "EndsWith s p = (p \<noteq> [] \<and> length p \<le> length s \<and> drop (length s - length p) s = p)"

text \<open>\<open>LeftChopInline(n)\<close> removes the last \<open>n\<close> characters.\<close>

definition LeftChop :: "string \<Rightarrow> nat \<Rightarrow> string" where
  "LeftChop s n = take (length s - n) s"

section \<open>Path normalization\<close>

text \<open>
  The loop of \<open>NormalizeHttpPath\<close>:
  \<^verbatim>\<open>while (InPath.Len() > 1 && InPath.EndsWith(TEXT("/"))) InPath.LeftChopInline(1, false);\<close>
\<close>

function StripTrailingSlashes :: "string \<Rightarrow> string" where
  "StripTrailingSlashes InPath =
     (if length InPath > 1 \<and> EndsWith InPath ''/''
      then StripTrailingSlashes (LeftChop InPath 1)
      else InPath)"
  by pat_completeness auto
termination
  by (relation "measure length") (auto simp: LeftChop_def)

declare StripTrailingSlashes.simps [simp del]

definition NormalizeHttpPath :: "string \<Rightarrow> string" where
  "NormalizeHttpPath InPath0 =
     (let InPath = TrimStartAndEnd InPath0 in
      if InPath = [] then ''/''
      else let InPath = (if \<not> StartsWith InPath ''/'' then ''/'' @ InPath else InPath)
           in StripTrailingSlashes InPath)"

text \<open>
  Step 4 without the loop: the whole run of trailing slashes is dropped at once and the
  first character is kept when nothing else is left.
\<close>

definition strip_trailing_spec :: "string \<Rightarrow> string" where
  "strip_trailing_spec s =
     (let t = rev (dropWhile (\<lambda>c. c = CHR ''/'') (rev s))
      in if t = [] then take 1 s else t)"

text \<open>\<open>NormalizeHttpPath\<close> without the loop, on the trimmed string of the code.\<close>

definition normalize_closed :: "string \<Rightarrow> string" where
  "normalize_closed raw =
     (let t = TrimStartAndEnd raw in
      if t = [] then ''/''
      else strip_trailing_spec (if hd t = CHR ''/'' then t else CHR ''/'' # t))"

text \<open>
  The four steps in the words of the specification. Step 1 removes the white space at
  the start and then the white space at the end, with a recursion of its own.
\<close>

fun drop_leading_whitespace :: "string \<Rightarrow> string" where
  "drop_leading_whitespace [] = []"
| "drop_leading_whitespace (c # cs) =
     (if IsWhitespace c then drop_leading_whitespace cs else c # cs)"

definition trim_spec :: "string \<Rightarrow> string" where
  "trim_spec raw = rev (drop_leading_whitespace (rev (drop_leading_whitespace raw)))"

definition normalize_spec :: "string \<Rightarrow> string" where
  "normalize_spec raw =
     (let t = trim_spec raw in
      if t = [] then ''/''
      else strip_trailing_spec (if hd t = CHR ''/'' then t else CHR ''/'' # t))"

section \<open>Verb masks\<close>

text \<open>
  \<open>ENativeHttpServerRequestVerbs\<close> (the plugin's enumeration, cast to \<open>uint8\<close>
  wherever the source combines it) and the engine's \<open>EHttpServerRequestVerbs\<close> (a
  16-bit enumeration). Neither declaration is in the sources; the casts of the source
  between the two are \<open>ucast\<close>.
\<close>

type_synonym ENativeHttpServerRequestVerbs = "8 word"
type_synonym EHttpServerRequestVerbs = "16 word"

text \<open>
  Modelled from the spec: the enumerators are declared in headers that are not in the
  sources; the spec says "one bit per verb" of GET, POST, PUT, PATCH, DELETE.
\<close>

definition VERB_GET :: "8 word" where "VERB_GET = 1"
definition VERB_POST :: "8 word" where "VERB_POST = 2"
definition VERB_PUT :: "8 word" where "VERB_PUT = 4"
definition VERB_PATCH :: "8 word" where "VERB_PATCH = 8"
definition VERB_DELETE :: "8 word" where "VERB_DELETE = 16"

definition VerbsMatch :: "ENativeHttpServerRequestVerbs \<Rightarrow> EHttpServerRequestVerbs \<Rightarrow> bool" where
  "VerbsMatch AllowedVerbs RequestVerb =
     (let AllowedMask = (AllowedVerbs :: 8 word);
          RequestMask = (ucast RequestVerb :: 8 word)
      in AllowedMask AND RequestMask \<noteq> 0)"

section \<open>Requests and responses\<close>

record FHttpServerRequest =
  req_RelativePath :: string
  req_Verb :: EHttpServerRequestVerbs
  req_Headers :: "(string \<times> string list) list"
  req_PathParams :: "(string \<times> string) list"
  req_QueryParams :: "(string \<times> string) list"
  req_Body :: "8 word list"

record FNativeHttpServerRequest =
  native_Verb :: ENativeHttpServerRequestVerbs
  native_RelativePath :: string
  native_Headers :: "(string \<times> string) list"
  native_PathParams :: "(string \<times> string) list"
  native_QueryParams :: "(string \<times> string) list"
  native_Body :: string

record FHttpServerResponse =
  resp_Code :: int
  resp_Body :: "8 word list"
  resp_Headers :: "(string \<times> string list) list"
  resp_HttpVersion :: nat

record FNativeHttpServerResponse =
  HttpServerResponse :: FHttpServerResponse

text \<open>A default-constructed \<open>FNativeHttpServerRequest\<close>.\<close>

definition empty_native_request :: FNativeHttpServerRequest where
  "empty_native_request =
     \<lparr>native_Verb = 0, native_RelativePath = [], native_Headers = [],
      native_PathParams = [], native_QueryParams = [], native_Body = []\<rparr>"

text \<open>
  Modelled from the spec: \<open>FUTF8ToTCHAR\<close> is an engine converter; the spec says the
  body bytes are decoded as UTF-8 text. A \<^typ>\<open>string\<close> here is the UTF-8 bytes of the
  text, so decoding keeps the bytes.
\<close>

definition FUTF8ToTCHAR :: "8 word list \<Rightarrow> string" where
  "FUTF8ToTCHAR bytes = map (\<lambda>b. char_of (unat b)) bytes"

text \<open>The inner loop of \<open>FillNativeRequst\<close>: \<^verbatim>\<open>StrHeaderVals += val + TEXT(" ")\<close>.\<close>

definition FlattenHeaderValues :: "string list \<Rightarrow> string" where
  "FlattenHeaderValues vals = foldl (\<lambda>StrHeaderVals val. StrHeaderVals @ (val @ '' '')) [] vals"

text \<open>
  \<open>FillNativeRequst\<close> writes into the request record it is given. \<open>TMap::Add\<close> replaces
  the value of a key that is present (\<^const>\<open>AList.update\<close>).
\<close>

definition FillNativeRequst ::
  "FHttpServerRequest \<Rightarrow> FNativeHttpServerRequest \<Rightarrow> FNativeHttpServerRequest" where
  "FillNativeRequst Request NativeRequest =
     NativeRequest
       \<lparr>native_Verb := ucast (req_Verb Request),
        native_RelativePath := req_RelativePath Request,
        native_Headers :=
          foldl (\<lambda>Headers Header. AList.update (fst Header) (FlattenHeaderValues (snd Header)) Headers)
            (native_Headers NativeRequest) (req_Headers Request),
        native_PathParams := req_PathParams Request,
        native_QueryParams := req_QueryParams Request,
        native_Body := FUTF8ToTCHAR (req_Body Request)\<rparr>"

text \<open>The specification's wording for the flattened header: the values joined by single spaces.\<close>

fun join_with_spaces :: "string list \<Rightarrow> string" where
  "join_with_spaces [] = []"
| "join_with_spaces [v] = v"
| "join_with_spaces (v # w # vs) = v @ '' '' @ join_with_spaces (w # vs)"

text \<open>
  Modelled from the spec: \<open>FHttpServerResponse::Error\<close> is an engine helper that is not in
  the sources; the spec describes its result for Not-Found as "status 404, no body".
\<close>

definition NotFound :: int where
  "NotFound = 404"

definition FHttpServerResponse_Error :: "int \<Rightarrow> FHttpServerResponse" where
  "FHttpServerResponse_Error ResponseCode =
     \<lparr>resp_Code = ResponseCode, resp_Body = [], resp_Headers = [], resp_HttpVersion = 0\<rparr>"

section \<open>Handlers and the outcome of a dispatch\<close>

text \<open>
  A callback-style handler is a dynamic delegate: unbound, or bound to a function that
  returns the response. A direct-style handler (\<open>FHttpRouteHandler\<close>) returns nothing and
  is given the request only; it is identified by a number. What a handler does besides
  returning is outside the model: a handler does not change the server.
\<close>

datatype FHttpServerRequestDelegate =
  Unbound | BoundTo "FNativeHttpServerRequest \<Rightarrow> FNativeHttpServerResponse"

type_synonym FHttpRouteHandler = nat

datatype invocation =
  Executed FHttpServerRequestDelegate FNativeHttpServerRequest
| Called FHttpRouteHandler FNativeHttpServerRequest

text \<open>
  What one call of a request handler did: the value it returned, the responses it passed
  to \<open>OnComplete\<close> and the handlers it ran, both in order.
\<close>

record dispatch =
  returned :: bool
  completed :: "FHttpServerResponse list"
  invoked :: "invocation list"

definition not_handled :: dispatch where
  "not_handled = \<lparr>returned = False, completed = [], invoked = []\<rparr>"

section \<open>The transport: the engine's HTTP server module and its routers\<close>

text \<open>
  The handler lambdas that the source binds capture the normalized path and call
  \<open>HandleRequest\<close> or \<open>HandleRequestNative\<close> with it.
\<close>

datatype route_lambda = CallsHandleRequest string | CallsHandleRequestNative string

record bound_route =
  route_handle :: nat
  route_path :: string
  route_verbs :: EHttpServerRequestVerbs
  route_lambda :: route_lambda

record IHttpRouter =
  bound_routes :: "bound_route list"
  preprocessors :: "nat list"

datatype transport_call =
  GetHttpRouter_call int
| StartAllListeners_call
| StopAllListeners_call
| RegisterRequestPreprocessor_call int
| UnregisterRequestPreprocessor_call int nat
| BindRoute_call int string EHttpServerRequestVerbs route_lambda
| UnbindRoute_call int nat

text \<open>
  Modelled from the spec: \<open>FHttpServerModule\<close> and \<open>IHttpRouter\<close> are the engine's, not
  in the sources. Section 6 of the spec gives their interface: a process-wide listener
  per port that is obtained or created, or not obtainable; \<open>bindRoute\<close> registers a route
  and returns an opaque handle usable for unbinding; \<open>unbindRoute\<close>;
  \<open>registerPreprocessor\<close> and \<open>unregisterPreprocessor\<close>; \<open>startAllListeners\<close> and
  \<open>stopAllListeners\<close>. Handles are numbers taken from a counter. A router is named by its
  port. The engine's path check \<open>FHttpPath::IsValidPath\<close> and whether a port's router is
  obtainable are fields of the module that no operation changes. \<open>calls\<close> records every
  call the server makes, in order.
\<close>

record FHttpServerModule =
  routers :: "int \<Rightarrow> IHttpRouter"
  obtainable :: "int \<Rightarrow> bool"
  IsValidPath :: "string \<Rightarrow> bool"
  listening :: bool
  next_handle :: nat
  calls :: "transport_call list"

definition GetHttpRouter :: "int \<Rightarrow> FHttpServerModule \<Rightarrow> FHttpServerModule \<times> int option" where
  "GetHttpRouter Port m =
     (m\<lparr>calls := calls m @ [GetHttpRouter_call Port]\<rparr>,
      if obtainable m Port then Some Port else None)"

definition StartAllListeners :: "FHttpServerModule \<Rightarrow> FHttpServerModule" where
  "StartAllListeners m = m\<lparr>listening := True, calls := calls m @ [StartAllListeners_call]\<rparr>"

definition StopAllListeners :: "FHttpServerModule \<Rightarrow> FHttpServerModule" where
  "StopAllListeners m = m\<lparr>listening := False, calls := calls m @ [StopAllListeners_call]\<rparr>"

definition Router_BindRoute ::
  "int \<Rightarrow> string \<Rightarrow> EHttpServerRequestVerbs \<Rightarrow> route_lambda \<Rightarrow> FHttpServerModule
     \<Rightarrow> FHttpServerModule \<times> nat" where
  "Router_BindRoute Router HttpPath HttpVerbs Handler m =
     (let h = next_handle m;
          r = routers m Router;
          r' = r\<lparr>bound_routes := bound_routes r @
                 [\<lparr>route_handle = h, route_path = HttpPath, route_verbs = HttpVerbs,
                   route_lambda = Handler\<rparr>]\<rparr>
      in (m\<lparr>routers := (routers m)(Router := r'), next_handle := Suc h,
            calls := calls m @ [BindRoute_call Router HttpPath HttpVerbs Handler]\<rparr>, h))"

definition Router_UnbindRoute :: "int \<Rightarrow> nat \<Rightarrow> FHttpServerModule \<Rightarrow> FHttpServerModule" where
  "Router_UnbindRoute Router RouteHandle m =
     (let r = routers m Router;
          r' = r\<lparr>bound_routes := filter (\<lambda>rt. route_handle rt \<noteq> RouteHandle) (bound_routes r)\<rparr>
      in m\<lparr>routers := (routers m)(Router := r'),
           calls := calls m @ [UnbindRoute_call Router RouteHandle]\<rparr>)"

definition Router_RegisterRequestPreprocessor ::
  "int \<Rightarrow> FHttpServerModule \<Rightarrow> FHttpServerModule \<times> nat" where
  "Router_RegisterRequestPreprocessor Router m =
     (let h = next_handle m;
          r = routers m Router;
          r' = r\<lparr>preprocessors := preprocessors r @ [h]\<rparr>
      in (m\<lparr>routers := (routers m)(Router := r'), next_handle := Suc h,
            calls := calls m @ [RegisterRequestPreprocessor_call Router]\<rparr>, h))"

definition Router_UnregisterRequestPreprocessor ::
  "int \<Rightarrow> nat \<Rightarrow> FHttpServerModule \<Rightarrow> FHttpServerModule" where
  "Router_UnregisterRequestPreprocessor Router Handle m =
     (let r = routers m Router;
          r' = r\<lparr>preprocessors := filter (\<lambda>h. h \<noteq> Handle) (preprocessors r)\<rparr>
      in m\<lparr>routers := (routers m)(Router := r'),
           calls := calls m @ [UnregisterRequestPreprocessor_call Router Handle]\<rparr>)"

text \<open>\<open>MakeHttpPathForRoute\<close> wraps the string in an \<open>FHttpPath\<close>.\<close>

definition MakeHttpPathForRoute :: "string \<Rightarrow> string" where
  "MakeHttpPathForRoute HttpPath = HttpPath"

text \<open>
  Modelled from the spec: \<open>FHttpPath::IsRoot\<close> is the engine's; the spec says "the
  request's path is exactly the root".
\<close>

definition IsRoot :: "string \<Rightarrow> bool" where
  "IsRoot p = (p = ''/'')"


section \<open>The server object\<close>

text \<open>
  The members of \<open>USimpleHttpServer\<close> that the source file uses. \<open>HttpRouter\<close> is a
  shared pointer: \<open>None\<close> when invalid, otherwise the port of the router it points to.
  The process-wide module is carried along as \<open>Engine\<close>.
\<close>

record USimpleHttpServer =
  CurrentServerPort :: int
  HttpRouter :: "int option"
  bServerStarted :: bool
  bRootPreprocessorRegistered :: bool
  RootRequestPreprocessorHandle :: nat
  RouteDelegates :: "string \<rightharpoonup> FHttpServerRequestDelegate"
  RouteVerbs :: "string \<rightharpoonup> ENativeHttpServerRequestVerbs"
  RouteHandlers :: "string \<rightharpoonup> FHttpRouteHandler"
  CreatedRouteHandlers :: "nat list"
  Engine :: FHttpServerModule

subsection \<open>Dispatch\<close>

definition HandleRequest :: "USimpleHttpServer \<Rightarrow> string \<Rightarrow> FHttpServerRequest \<Rightarrow> dispatch" where
  "HandleRequest st HttpPath Request =
     (let NativeHttpServerRequest = FillNativeRequst Request empty_native_request;
          not_found = \<lparr>returned = True, completed = [FHttpServerResponse_Error NotFound],
                       invoked = []\<rparr>
      in case RouteDelegates st HttpPath of
           Some HttpServerRequestDelegate \<Rightarrow>
             (case HttpServerRequestDelegate of
                BoundTo f \<Rightarrow>
                  (let HttpServerResponse' = f NativeHttpServerRequest;
                       Response =
                         \<lparr>resp_Code = resp_Code (HttpServerResponse HttpServerResponse'),
                          resp_Body = resp_Body (HttpServerResponse HttpServerResponse'),
                          resp_Headers = resp_Headers (HttpServerResponse HttpServerResponse'),
                          resp_HttpVersion = resp_HttpVersion (HttpServerResponse HttpServerResponse')\<rparr>
                   in \<lparr>returned = True, completed = [Response],
                       invoked = [Executed HttpServerRequestDelegate NativeHttpServerRequest]\<rparr>)
              | Unbound \<Rightarrow> not_found)
         | None \<Rightarrow> not_found)"

definition HandleRequestNative ::
  "USimpleHttpServer \<Rightarrow> string \<Rightarrow> FHttpServerRequest \<Rightarrow> dispatch" where
  "HandleRequestNative st HttpPath Request =
     (let NativeHttpServerRequest = FillNativeRequst Request empty_native_request
      in case RouteHandlers st HttpPath of
           Some HttpServerRequestDelegate \<Rightarrow>
             \<lparr>returned = True, completed = [],
              invoked = [Called HttpServerRequestDelegate NativeHttpServerRequest]\<rparr>
         | None \<Rightarrow>
             \<lparr>returned = True, completed = [FHttpServerResponse_Error NotFound],
              invoked = []\<rparr>)"

text \<open>
  The lambda that \<open>BindRoute\<close> and \<open>BindRouteNative\<close> register as request preprocessor
  (the same text in both). It captures \<open>this\<close>, so it reads the tables as they are when
  the request arrives.
\<close>

definition RootRequestPreprocessor :: "USimpleHttpServer \<Rightarrow> FHttpServerRequest \<Rightarrow> dispatch" where
  "RootRequestPreprocessor st Request =
     (if \<not> IsRoot (req_RelativePath Request) then not_handled
      else if (case RouteVerbs st ''/'' of
                 Some AllowedVerbs \<Rightarrow> \<not> VerbsMatch AllowedVerbs (req_Verb Request)
               | None \<Rightarrow> False)
      then not_handled
      else if RouteDelegates st ''/'' \<noteq> None then HandleRequest st ''/'' Request
      else if RouteHandlers st ''/'' \<noteq> None then HandleRequestNative st ''/'' Request
      else not_handled)"

subsection \<open>Registration\<close>

definition BindRoute ::
  "string \<Rightarrow> ENativeHttpServerRequestVerbs \<Rightarrow> FHttpServerRequestDelegate
     \<Rightarrow> USimpleHttpServer \<Rightarrow> USimpleHttpServer" where
  "BindRoute HttpPath Verbs OnHttpServerRequest st0 =
     (let NormalizedPath = NormalizeHttpPath HttpPath;
          st1 = st0\<lparr>RouteDelegates := (RouteDelegates st0)(NormalizedPath \<mapsto> OnHttpServerRequest)\<rparr>;
          st2 = (case RouteVerbs st1 NormalizedPath of
                   Some ExistingVerbs \<Rightarrow>
                     st1\<lparr>RouteVerbs := (RouteVerbs st1)(NormalizedPath \<mapsto> ExistingVerbs OR Verbs)\<rparr>
                 | None \<Rightarrow> st1\<lparr>RouteVerbs := (RouteVerbs st1)(NormalizedPath \<mapsto> Verbs)\<rparr>)
      in case HttpRouter st2 of
           Some Router \<Rightarrow>
             if NormalizedPath = ''/'' then
               (if \<not> bRootPreprocessorRegistered st2 then
                  (let (m, h) = Router_RegisterRequestPreprocessor Router (Engine st2)
                   in st2\<lparr>Engine := m, RootRequestPreprocessorHandle := h,
                          bRootPreprocessorRegistered := True\<rparr>)
                else st2)
             else
               (let RoutePath = MakeHttpPathForRoute NormalizedPath in
                if \<not> IsValidPath (Engine st2) RoutePath then st2
                else
                  (let (m, HttpRouteHandle) =
                         Router_BindRoute Router RoutePath (ucast Verbs)
                           (CallsHandleRequest NormalizedPath) (Engine st2)
                   in st2\<lparr>Engine := m,
                          CreatedRouteHandlers := CreatedRouteHandlers st2 @ [HttpRouteHandle]\<rparr>))
         | None \<Rightarrow> st2)"

definition BindRouteNative ::
  "string \<Rightarrow> ENativeHttpServerRequestVerbs \<Rightarrow> FHttpRouteHandler
     \<Rightarrow> USimpleHttpServer \<Rightarrow> USimpleHttpServer" where
  "BindRouteNative HttpPath Verbs Handler st0 =
     (let NormalizedPath = NormalizeHttpPath HttpPath;
          st1 = st0\<lparr>RouteHandlers := (RouteHandlers st0)(NormalizedPath \<mapsto> Handler)\<rparr>;
          st2 = (case RouteVerbs st1 NormalizedPath of
                   Some ExistingVerbs \<Rightarrow>
                     st1\<lparr>RouteVerbs := (RouteVerbs st1)(NormalizedPath \<mapsto> ExistingVerbs OR Verbs)\<rparr>
                 | None \<Rightarrow> st1\<lparr>RouteVerbs := (RouteVerbs st1)(NormalizedPath \<mapsto> Verbs)\<rparr>)
      in case HttpRouter st2 of
           Some Router \<Rightarrow>
             if NormalizedPath = ''/'' then
               (if \<not> bRootPreprocessorRegistered st2 then
                  (let (m, h) = Router_RegisterRequestPreprocessor Router (Engine st2)
                   in st2\<lparr>Engine := m, RootRequestPreprocessorHandle := h,
                          bRootPreprocessorRegistered := True\<rparr>)
                else st2)
             else
               (let RoutePath = MakeHttpPathForRoute NormalizedPath in
                if \<not> IsValidPath (Engine st2) RoutePath then st2
                else
                  (let (m, HttpRouteHandle) =
                         Router_BindRoute Router RoutePath (ucast Verbs)
                           (CallsHandleRequestNative NormalizedPath) (Engine st2)
                   in st2\<lparr>Engine := m,
                          CreatedRouteHandlers := CreatedRouteHandlers st2 @ [HttpRouteHandle]\<rparr>))
         | None \<Rightarrow> st2)"

subsection \<open>Start and stop\<close>

text \<open>
  \<open>BindRoutes\<close> calls \<open>ReceiveBindRoutes\<close>, an event that the application implements
  (it is declared in the header, which is not in the sources). It is a parameter: the
  state transformer that the application's implementation performs.
\<close>

definition BindRoutes ::
  "(USimpleHttpServer \<Rightarrow> USimpleHttpServer) \<Rightarrow> USimpleHttpServer \<Rightarrow> USimpleHttpServer" where
  "BindRoutes ReceiveBindRoutes st = ReceiveBindRoutes st"

definition StartServer ::
  "(USimpleHttpServer \<Rightarrow> USimpleHttpServer) \<Rightarrow> int \<Rightarrow> USimpleHttpServer \<Rightarrow> USimpleHttpServer" where
  "StartServer ReceiveBindRoutes ServerPort st0 =
     (if ServerPort \<le> 0 then st0
      else
        (let st1 = st0\<lparr>CurrentServerPort := ServerPort\<rparr>;
             (m, Router) = GetHttpRouter (CurrentServerPort st1) (Engine st1);
             st2 = st1\<lparr>Engine := m, HttpRouter := Router\<rparr>
         in if HttpRouter st2 \<noteq> None then
              (let st3 = BindRoutes ReceiveBindRoutes st2;
                   st4 = st3\<lparr>Engine := StartAllListeners (Engine st3)\<rparr>
               in st4\<lparr>bServerStarted := True\<rparr>)
            else st2\<lparr>bServerStarted := False\<rparr>))"

definition StopServer :: "USimpleHttpServer \<Rightarrow> USimpleHttpServer" where
  "StopServer st0 =
     (let st1 = st0\<lparr>Engine := StopAllListeners (Engine st0)\<rparr>
      in case HttpRouter st1 of
           Some Router \<Rightarrow>
             (let st2 =
                    (if bRootPreprocessorRegistered st1 then
                       st1\<lparr>Engine := Router_UnregisterRequestPreprocessor Router
                                        (RootRequestPreprocessorHandle st1) (Engine st1),
                           bRootPreprocessorRegistered := False\<rparr>
                     else st1)
              in st2\<lparr>Engine := foldl (\<lambda>m HttpRouteHandle. Router_UnbindRoute Router HttpRouteHandle m)
                                  (Engine st2) (CreatedRouteHandlers st2)\<rparr>)
         | None \<Rightarrow> st1)"

subsection \<open>The application's registrations and the listener's own dispatch\<close>

text \<open>An implementation of \<open>ReceiveBindRoutes\<close> that makes a list of registration calls.\<close>

datatype registration =
  Callback string ENativeHttpServerRequestVerbs FHttpServerRequestDelegate
| Direct string ENativeHttpServerRequestVerbs FHttpRouteHandler

fun register :: "registration \<Rightarrow> USimpleHttpServer \<Rightarrow> USimpleHttpServer" where
  "register (Callback HttpPath Verbs d) st = BindRoute HttpPath Verbs d st"
| "register (Direct HttpPath Verbs h) st = BindRouteNative HttpPath Verbs h st"

definition register_all :: "registration list \<Rightarrow> USimpleHttpServer \<Rightarrow> USimpleHttpServer" where
  "register_all regs st = foldl (\<lambda>s r. register r s) st regs"

text \<open>
  Modelled from the spec: how the listener serves a request is the engine's. The spec
  says that the preprocessor is "invoked by the listener for every incoming request before
  normal route matching", that a request it does not handle falls through to the routes,
  and that a route matches on the exact path and on the verb mask. Among several matching
  routes the one bound first is taken. A request that nothing handles is left to the
  listener (\<^const>\<open>not_handled\<close>).
\<close>

definition route_matches :: "bound_route \<Rightarrow> FHttpServerRequest \<Rightarrow> bool" where
  "route_matches rt Request =
     (route_path rt = req_RelativePath Request \<and> route_verbs rt AND req_Verb Request \<noteq> 0)"

definition run_route_lambda :: "USimpleHttpServer \<Rightarrow> route_lambda \<Rightarrow> FHttpServerRequest \<Rightarrow> dispatch" where
  "run_route_lambda st l Request =
     (case l of
        CallsHandleRequest NormalizedPath \<Rightarrow> HandleRequest st NormalizedPath Request
      | CallsHandleRequestNative NormalizedPath \<Rightarrow> HandleRequestNative st NormalizedPath Request)"

definition matching_routes :: "USimpleHttpServer \<Rightarrow> FHttpServerRequest \<Rightarrow> bound_route list" where
  "matching_routes st Request =
     (case HttpRouter st of
        None \<Rightarrow> []
      | Some Router \<Rightarrow>
          filter (\<lambda>rt. route_matches rt Request) (bound_routes (routers (Engine st) Router)))"

definition listener_dispatch :: "USimpleHttpServer \<Rightarrow> FHttpServerRequest \<Rightarrow> dispatch" where
  "listener_dispatch st Request =
     (case HttpRouter st of
        None \<Rightarrow> not_handled
      | Some Router \<Rightarrow>
          (let pre = (if preprocessors (routers (Engine st) Router) = [] then not_handled
                      else RootRequestPreprocessor st Request)
           in if returned pre then pre
              else (case matching_routes st Request of
                      [] \<Rightarrow> not_handled
                    | rt # _ \<Rightarrow> run_route_lambda st (route_lambda rt) Request)))"

text \<open>
  Modelled from the spec: the members' initial values are set in the header, which is
  not in the sources; the route table is "created empty when the router is constructed",
  nothing is started, registered or bound. The engine is a parameter.
\<close>

definition constructed :: "FHttpServerModule \<Rightarrow> USimpleHttpServer" where
  "constructed m =
     \<lparr>CurrentServerPort = 0, HttpRouter = None, bServerStarted = False,
      bRootPreprocessorRegistered = False, RootRequestPreprocessorHandle = 0,
      RouteDelegates = Map.empty, RouteVerbs = Map.empty, RouteHandlers = Map.empty,
      CreatedRouteHandlers = [], Engine = m\<rparr>"

text \<open>An engine in which nothing has happened yet: every port obtainable, every path valid.\<close>

definition fresh_engine :: FHttpServerModule where
  "fresh_engine =
     \<lparr>routers = (\<lambda>_. \<lparr>bound_routes = [], preprocessors = []\<rparr>),
      obtainable = (\<lambda>_. True), IsValidPath = (\<lambda>_. True),
      listening = False, next_handle = 0, calls = []\<rparr>"

section \<open>Notions used in the statements\<close>

subsection \<open>Verb masks\<close>

text \<open>The mask that a registration with \<open>Verbs\<close> leaves in \<open>RouteVerbs\<close>.\<close>

definition merged_verbs ::
  "ENativeHttpServerRequestVerbs option \<Rightarrow> ENativeHttpServerRequestVerbs
     \<Rightarrow> ENativeHttpServerRequestVerbs" where
  "merged_verbs old Verbs =
     (case old of None \<Rightarrow> Verbs | Some ExistingVerbs \<Rightarrow> ExistingVerbs OR Verbs)"

text \<open>The verbs of a bound route are all in a mask of the table.\<close>

definition verbs_within :: "EHttpServerRequestVerbs \<Rightarrow> ENativeHttpServerRequestVerbs \<Rightarrow> bool" where
  "verbs_within HttpVerbs Mask = (HttpVerbs AND NOT (ucast Mask) = 0)"

text \<open>The verb check of the root preprocessor lets the request pass.\<close>

definition verb_allowed_at_root :: "USimpleHttpServer \<Rightarrow> FHttpServerRequest \<Rightarrow> bool" where
  "verb_allowed_at_root st Request =
     (case RouteVerbs st ''/'' of
        Some AllowedVerbs \<Rightarrow> VerbsMatch AllowedVerbs (req_Verb Request)
      | None \<Rightarrow> True)"

subsection \<open>Registrations and the routes they bind\<close>

text \<open>What a registration asks for, and the route that it binds when it binds one.\<close>

fun reg_path :: "registration \<Rightarrow> string" where
  "reg_path (Callback HttpPath Verbs d) = HttpPath"
| "reg_path (Direct HttpPath Verbs h) = HttpPath"

fun reg_verbs :: "registration \<Rightarrow> ENativeHttpServerRequestVerbs" where
  "reg_verbs (Callback HttpPath Verbs d) = Verbs"
| "reg_verbs (Direct HttpPath Verbs h) = Verbs"

fun reg_lambda :: "registration \<Rightarrow> route_lambda" where
  "reg_lambda (Callback HttpPath Verbs d) = CallsHandleRequest (NormalizeHttpPath HttpPath)"
| "reg_lambda (Direct HttpPath Verbs h) = CallsHandleRequestNative (NormalizeHttpPath HttpPath)"

text \<open>
  With a valid router, a registration reaches the router's \<open>BindRoute\<close> when its
  normalized path is not the root and passes the engine's path check.
\<close>

definition bindable :: "FHttpServerModule \<Rightarrow> registration \<Rightarrow> bool" where
  "bindable m r =
     (NormalizeHttpPath (reg_path r) \<noteq> ''/'' \<and> IsValidPath m (NormalizeHttpPath (reg_path r)))"

definition new_route :: "FHttpServerModule \<Rightarrow> registration \<Rightarrow> bound_route" where
  "new_route m r =
     \<lparr>route_handle = next_handle m, route_path = NormalizeHttpPath (reg_path r),
      route_verbs = ucast (reg_verbs r), route_lambda = reg_lambda r\<rparr>"

text \<open>A bound route without its handle, and the same for the route a registration asks for.\<close>

definition route_spec :: "bound_route \<Rightarrow> string \<times> EHttpServerRequestVerbs \<times> route_lambda" where
  "route_spec rt = (route_path rt, route_verbs rt, route_lambda rt)"

definition reg_spec :: "registration \<Rightarrow> string \<times> EHttpServerRequestVerbs \<times> route_lambda" where
  "reg_spec r = (NormalizeHttpPath (reg_path r), ucast (reg_verbs r), reg_lambda r)"

subsection \<open>Two properties of a server state\<close>

text \<open>
  Every route bound in the server's router lies within the table: its path has a mask in
  \<open>RouteVerbs\<close> that contains the verbs of the route.
\<close>

definition routes_within_table :: "USimpleHttpServer \<Rightarrow> bool" where
  "routes_within_table st =
     (case HttpRouter st of
        None \<Rightarrow> True
      | Some Router \<Rightarrow>
          list_all
            (\<lambda>rt. case RouteVerbs st (route_path rt) of
                     None \<Rightarrow> False
                   | Some Mask \<Rightarrow> verbs_within (route_verbs rt) Mask)
            (bound_routes (routers (Engine st) Router)))"

text \<open>Every handle in \<open>CreatedRouteHandlers\<close> was issued by the engine's counter.\<close>

definition created_handles_issued :: "USimpleHttpServer \<Rightarrow> bool" where
  "created_handles_issued st =
     list_all (\<lambda>h. h < next_handle (Engine st)) (CreatedRouteHandlers st)"

text \<open>
  The state in which a successful \<open>StartServer\<close> calls \<open>BindRoutes\<close>: the port stored and
  the router of the port attached.
\<close>

definition attach :: "int \<Rightarrow> USimpleHttpServer \<Rightarrow> USimpleHttpServer" where
  "attach ServerPort st =
     st\<lparr>CurrentServerPort := ServerPort,
        Engine := fst (GetHttpRouter ServerPort (Engine st)),
        HttpRouter := Some ServerPort\<rparr>"

subsection \<open>Concrete requests, handlers and servers\<close>

definition example_response :: FNativeHttpServerResponse where
  "example_response =
     \<lparr>HttpServerResponse =
        \<lparr>resp_Code = 200, resp_Body = [0x6F, 0x6B], resp_Headers = [], resp_HttpVersion = 1\<rparr>\<rparr>"

definition example_request :: "string \<Rightarrow> EHttpServerRequestVerbs \<Rightarrow> FHttpServerRequest" where
  "example_request p v =
     \<lparr>req_RelativePath = p, req_Verb = v, req_Headers = [], req_PathParams = [],
      req_QueryParams = [], req_Body = []\<rparr>"

text \<open>A GET of \<open>/a\<close> with the header \<open>Accept\<close> of two values.\<close>

definition accept_request :: FHttpServerRequest where
  "accept_request = (example_request ''/a'' 1)\<lparr>req_Headers := [(''Accept'', [''a'', ''b''])]\<rparr>"

text \<open>A server started on port 8080 by an application whose \<open>ReceiveBindRoutes\<close> does nothing.\<close>

definition started :: USimpleHttpServer where
  "started = StartServer (\<lambda>st. st) 8080 (constructed fresh_engine)"

text \<open>Both kinds of handler registered for \<open>/b\<close>, the direct one first.\<close>

definition both_kinds :: USimpleHttpServer where
  "both_kinds =
     BindRoute ''/b'' VERB_GET (BoundTo (\<lambda>_. example_response))
       (BindRouteNative ''/b'' VERB_GET 7 started)"

text \<open>Both kinds of handler registered for the root: a callback for GET, a direct one for POST.\<close>

definition root_both :: USimpleHttpServer where
  "root_both =
     BindRouteNative ''/'' VERB_POST 9
       (BindRoute '' '' VERB_GET (BoundTo (\<lambda>_. example_response)) started)"

text \<open>\<open>/a\<close> registered for GET with a callback, then for POST with a direct handler.\<close>

definition get_then_post :: USimpleHttpServer where
  "get_then_post =
     register (Direct ''/a/'' VERB_POST 5)
       (register (Callback ''/a'' VERB_GET (BoundTo (\<lambda>_. example_response))) started)"

text \<open>A server on which \<open>/old\<close> was registered before it was started.\<close>

definition registered_early :: USimpleHttpServer where
  "registered_early =
     BindRoute ''/old'' VERB_GET (BoundTo (\<lambda>_. example_response)) (constructed fresh_engine)"

text \<open>The registrations of an application's \<open>ReceiveBindRoutes\<close>.\<close>

definition example_hook :: "registration list" where
  "example_hook =
     [Callback ''/a'' VERB_GET (BoundTo (\<lambda>_. example_response)),
      Direct ''/'' VERB_POST 9,
      Direct ''/c/'' VERB_POST 5]"

text \<open>\<open>/u\<close> registered for GET with a delegate that is not bound.\<close>

definition unbound_route :: USimpleHttpServer where
  "unbound_route = BindRoute ''/u'' VERB_GET Unbound started"

text \<open>
  A path registered for GET before the server is started and for POST afterwards, with
  the same callback.
\<close>

definition registered_around_start :: "string \<Rightarrow> USimpleHttpServer" where
  "registered_around_start HttpPath =
     BindRoute HttpPath VERB_POST (BoundTo (\<lambda>_. example_response))
       (StartServer (\<lambda>st. st) 8080
          (BindRoute HttpPath VERB_GET (BoundTo (\<lambda>_. example_response))
             (constructed fresh_engine)))"

section \<open>Helper lemmas: normalization\<close>

lemma EndsWith_slash: "EndsWith s ''/'' = (s \<noteq> [] \<and> last s = CHR ''/'')"
proof (cases s rule: rev_cases)
  case Nil
  then show ?thesis by (simp add: EndsWith_def)
next
  case (snoc ys y)
  then show ?thesis by (auto simp: EndsWith_def)
qed

lemma StartsWith_slash: "StartsWith s ''/'' = (s \<noteq> [] \<and> hd s = CHR ''/'')"
  by (cases s) (auto simp: StartsWith_def)

lemma StripTrailingSlashes_spec: "StripTrailingSlashes s = strip_trailing_spec s"
proof (induction s rule: StripTrailingSlashes.induct)
  case (1 s)
  show ?case
  proof (cases "length s > 1 \<and> EndsWith s ''/''")
    case True
    then obtain ys where s: "s = ys @ ''/''" and ys: "ys \<noteq> []"
      by (cases s rule: rev_cases) (auto simp: EndsWith_slash)
    have "StripTrailingSlashes s = StripTrailingSlashes (LeftChop s 1)"
      using True by (subst StripTrailingSlashes.simps) simp
    also have "\<dots> = strip_trailing_spec (LeftChop s 1)"
      using True 1 by simp
    also have "LeftChop s 1 = ys" by (simp add: s LeftChop_def)
    also have "strip_trailing_spec ys = strip_trailing_spec s"
      using ys by (cases ys) (simp_all add: s strip_trailing_spec_def)
    finally show ?thesis .
  next
    case False
    then have stop: "StripTrailingSlashes s = s"
      by (subst StripTrailingSlashes.simps) auto
    show ?thesis
    proof (cases s rule: rev_cases)
      case Nil
      then show ?thesis using stop by (simp add: strip_trailing_spec_def)
    next
      case (snoc ys y)
      then show ?thesis using stop False
        by (cases ys) (auto simp: strip_trailing_spec_def EndsWith_slash)
    qed
  qed
qed

lemma NormalizeHttpPath_closed: "NormalizeHttpPath s = normalize_closed s"
  by (simp add: NormalizeHttpPath_def normalize_closed_def Let_def StartsWith_slash
      StripTrailingSlashes_spec)

lemma TrimEnd_Cons_keep:
  "\<not> IsWhitespace c \<Longrightarrow> TrimEnd (c # xs) = c # TrimEnd xs"
  by (simp add: TrimEnd_def dropWhile_append3)

lemma TrimEnd_fixed: "s \<noteq> [] \<Longrightarrow> \<not> IsWhitespace (last s) \<Longrightarrow> TrimEnd s = s"
  by (cases s rule: rev_cases) (simp_all add: TrimEnd_def)

lemma TrimEnd_shorter:
  "s \<noteq> [] \<Longrightarrow> IsWhitespace (last s) \<Longrightarrow> length (TrimEnd s) < length s"
proof (cases s rule: rev_cases)
  case Nil
  assume "s \<noteq> []" with Nil show ?thesis by simp
next
  case (snoc ys y)
  assume "IsWhitespace (last s)"
  then have "length (TrimEnd s) = length (dropWhile IsWhitespace (rev ys))"
    by (simp add: snoc TrimEnd_def)
  also have "\<dots> \<le> length ys"
    using length_dropWhile_le [of IsWhitespace "rev ys"] by simp
  finally show ?thesis by (simp add: snoc)
qed

lemma slash_not_whitespace: "\<not> IsWhitespace (CHR ''/'')"
  by (simp add: IsWhitespace_def)

lemma strip_trailing_spec_length: "length (strip_trailing_spec s) \<le> length s"
  using length_dropWhile_le [of "\<lambda>c. c = CHR ''/''" "rev s"]
  by (simp add: strip_trailing_spec_def Let_def)

lemma strip_trailing_spec_Cons:
  "strip_trailing_spec (CHR ''/'' # xs) =
     CHR ''/'' # rev (dropWhile (\<lambda>c. c = CHR ''/'') (rev xs))"
  by (simp add: strip_trailing_spec_def Let_def dropWhile_append)

lemma stripped_tail:
  "rev (dropWhile (\<lambda>c. c = CHR ''/'') (rev xs)) = []
     \<or> last (rev (dropWhile (\<lambda>c. c = CHR ''/'') (rev xs))) \<noteq> CHR ''/''"
proof (cases "dropWhile (\<lambda>c. c = CHR ''/'') (rev xs)")
  case Nil
  then show ?thesis by simp
next
  case (Cons z zs)
  then have "z \<noteq> CHR ''/''"
    using hd_dropWhile [of "\<lambda>c. c = CHR ''/''" "rev xs"] by auto
  then show ?thesis using Cons by simp
qed

text \<open>Every normalized path is a slash followed by a tail that does not end in a slash.\<close>

lemma NormalizeHttpPath_shape:
  "\<exists>xs. NormalizeHttpPath s = CHR ''/'' # xs \<and> (xs = [] \<or> last xs \<noteq> CHR ''/'')"
proof (cases "TrimStartAndEnd s")
  case Nil
  then show ?thesis by (simp add: NormalizeHttpPath_closed normalize_closed_def)
next
  case (Cons c cs)
  show ?thesis
  proof (cases "c = CHR ''/''")
    case True
    then have "NormalizeHttpPath s = CHR ''/'' # rev (dropWhile (\<lambda>c. c = CHR ''/'') (rev cs))"
      by (simp add: NormalizeHttpPath_closed normalize_closed_def Cons strip_trailing_spec_Cons)
    then show ?thesis using stripped_tail [of cs] by blast
  next
    case False
    then have "NormalizeHttpPath s =
        CHR ''/'' # rev (dropWhile (\<lambda>c. c = CHR ''/'') (rev (c # cs)))"
      by (simp add: NormalizeHttpPath_closed normalize_closed_def Cons strip_trailing_spec_Cons)
    then show ?thesis using stripped_tail [of "c # cs"] by blast
  qed
qed

lemma NormalizeHttpPath_of_canonical:
  assumes "last xs \<noteq> CHR ''/'' \<or> xs = []" and "\<not> IsWhitespace (last (CHR ''/'' # xs))"
  shows "NormalizeHttpPath (CHR ''/'' # xs) = CHR ''/'' # xs"
proof -
  have "TrimEnd (CHR ''/'' # xs) = CHR ''/'' # xs"
    using assms(2) by (intro TrimEnd_fixed) simp_all
  then have t: "TrimStartAndEnd (CHR ''/'' # xs) = CHR ''/'' # xs"
    by (simp add: TrimStartAndEnd_def TrimStart_def slash_not_whitespace)
  have "dropWhile (\<lambda>c. c = CHR ''/'') (rev xs) = rev xs"
    using assms(1) by (cases xs rule: rev_cases) simp_all
  then show ?thesis
    by (simp add: NormalizeHttpPath_closed normalize_closed_def t strip_trailing_spec_Cons)
qed

lemma NormalizeHttpPath_shrinks:
  assumes "IsWhitespace (last (CHR ''/'' # xs))"
  shows "length (NormalizeHttpPath (CHR ''/'' # xs)) < length (CHR ''/'' # xs)"
proof -
  have e: "TrimEnd (CHR ''/'' # xs) = CHR ''/'' # TrimEnd xs"
    by (rule TrimEnd_Cons_keep) (rule slash_not_whitespace)
  then have t: "TrimStartAndEnd (CHR ''/'' # xs) = CHR ''/'' # TrimEnd xs"
    by (simp add: TrimStartAndEnd_def TrimStart_def slash_not_whitespace)
  have "length (NormalizeHttpPath (CHR ''/'' # xs)) \<le> length (CHR ''/'' # TrimEnd xs)"
    using strip_trailing_spec_length [of "CHR ''/'' # TrimEnd xs"]
    by (simp add: NormalizeHttpPath_closed normalize_closed_def t)
  also have "\<dots> = length (TrimEnd (CHR ''/'' # xs))" by (simp add: e)
  also have "\<dots> < length (CHR ''/'' # xs)"
    using assms by (intro TrimEnd_shorter) simp_all
  finally show ?thesis .
qed

lemma drop_leading_whitespace_dropWhile:
  "drop_leading_whitespace s = dropWhile IsWhitespace s"
  by (induction s) simp_all

lemma trim_either_order:
  "rev (dropWhile P (rev (dropWhile P s))) = dropWhile P (rev (dropWhile P (rev s)))"
proof (induction s)
  case Nil
  then show ?case by simp
next
  case (Cons c cs)
  show ?case
  proof (cases "P c")
    case True
    show ?thesis
    proof (cases "\<forall>x\<in>set cs. P x")
      case all: True
      then have d: "dropWhile P cs = []" by simp
      show ?thesis using True all by (simp add: d dropWhile_append)
    next
      case False
      then show ?thesis using True Cons.IH by (auto simp: dropWhile_append)
    qed
  next
    case False
    then show ?thesis by (simp add: dropWhile_append3)
  qed
qed

lemma trim_spec_eq: "trim_spec s = TrimStartAndEnd s"
  by (simp add: trim_spec_def TrimStartAndEnd_def TrimStart_def TrimEnd_def
      drop_leading_whitespace_dropWhile trim_either_order)

lemma normalize_spec_eq: "NormalizeHttpPath s = normalize_spec s"
  by (simp add: NormalizeHttpPath_closed normalize_closed_def normalize_spec_def trim_spec_eq)

lemma last_dropWhile_nonempty: "dropWhile P xs \<noteq> [] \<Longrightarrow> last (dropWhile P xs) = last xs"
  by (induction xs) (auto split: if_splits)

lemma trim_spec_is_middle:
  "\<exists>a b. s = a @ trim_spec s @ b \<and> list_all IsWhitespace a \<and> list_all IsWhitespace b"
proof -
  let ?e = "TrimEnd s"
  have 1: "s = ?e @ rev (takeWhile IsWhitespace (rev s))"
  proof -
    have "rev (takeWhile IsWhitespace (rev s) @ dropWhile IsWhitespace (rev s)) = s" by simp
    then show ?thesis by (simp only: rev_append TrimEnd_def)
  qed
  have 2: "?e = takeWhile IsWhitespace ?e @ trim_spec s"
    by (simp add: trim_spec_eq TrimStartAndEnd_def TrimStart_def)
  have "s = takeWhile IsWhitespace ?e @ trim_spec s @ rev (takeWhile IsWhitespace (rev s))"
    using 1 2 by (metis append.assoc)
  moreover have "list_all IsWhitespace (takeWhile IsWhitespace ?e)"
    by (auto simp: list_all_iff dest: set_takeWhileD)
  moreover have "list_all IsWhitespace (rev (takeWhile IsWhitespace (rev s)))"
    by (auto simp: list_all_iff dest: set_takeWhileD)
  ultimately show ?thesis by blast
qed

lemma trim_spec_ends:
  "trim_spec s = [] \<or> \<not> IsWhitespace (hd (trim_spec s)) \<and> \<not> IsWhitespace (last (trim_spec s))"
proof (cases "trim_spec s = []")
  case True
  then show ?thesis by simp
next
  case False
  then have ne: "dropWhile IsWhitespace (TrimEnd s) \<noteq> []"
    by (simp add: trim_spec_eq TrimStartAndEnd_def TrimStart_def)
  then have h: "\<not> IsWhitespace (hd (trim_spec s))"
    using hd_dropWhile [of IsWhitespace "TrimEnd s"]
    by (simp add: trim_spec_eq TrimStartAndEnd_def TrimStart_def)
  have e: "TrimEnd s \<noteq> []" using ne by auto
  then have "dropWhile IsWhitespace (rev s) \<noteq> []" by (simp add: TrimEnd_def)
  then have "\<not> IsWhitespace (hd (dropWhile IsWhitespace (rev s)))"
    by (rule hd_dropWhile)
  moreover have "last (TrimEnd s) = hd (dropWhile IsWhitespace (rev s))"
    using e by (simp add: TrimEnd_def last_rev)
  moreover have "last (trim_spec s) = last (TrimEnd s)"
    using ne by (simp add: trim_spec_eq TrimStartAndEnd_def TrimStart_def last_dropWhile_nonempty)
  ultimately show ?thesis using h by simp
qed

lemmas normalize_eval =
  NormalizeHttpPath_closed normalize_closed_def strip_trailing_spec_def TrimStartAndEnd_def
  TrimStart_def TrimEnd_def IsWhitespace_def

section \<open>Claims: path normalization\<close>

text \<open>
  C7, as the code has it. The claim says that normalization is idempotent on every
  string. It is not: trimming runs before the trailing slashes are stripped, so white
  space that stood in front of a trailing slash ends the normalized path, and a second
  normalization trims it away.
\<close>

theorem NormalizeHttpPath_not_idempotent:
  "NormalizeHttpPath ''/ /'' = ''/ ''
   \<and> NormalizeHttpPath (NormalizeHttpPath ''/ /'') = ''/''
   \<and> NormalizeHttpPath (NormalizeHttpPath ''/ /'') \<noteq> NormalizeHttpPath ''/ /''"
  by (simp add: normalize_eval)

text \<open>
  C7, amended: normalizing a second time changes nothing exactly when the normalized
  path does not end in a white space character.
\<close>

theorem NormalizeHttpPath_idempotent_iff:
  "NormalizeHttpPath (NormalizeHttpPath s) = NormalizeHttpPath s
     \<longleftrightarrow> \<not> IsWhitespace (last (NormalizeHttpPath s))"
proof -
  obtain xs where r: "NormalizeHttpPath s = CHR ''/'' # xs"
    and xs: "xs = [] \<or> last xs \<noteq> CHR ''/''"
    using NormalizeHttpPath_shape by blast
  show ?thesis
  proof (cases "IsWhitespace (last (CHR ''/'' # xs))")
    case True
    then have "length (NormalizeHttpPath (CHR ''/'' # xs)) < length (CHR ''/'' # xs)"
      by (rule NormalizeHttpPath_shrinks)
    then have "NormalizeHttpPath (CHR ''/'' # xs) \<noteq> CHR ''/'' # xs" by auto
    then show ?thesis using True by (simp add: r)
  next
    case False
    then have "NormalizeHttpPath (CHR ''/'' # xs) = CHR ''/'' # xs"
      using xs by (intro NormalizeHttpPath_of_canonical) auto
    then show ?thesis using False by (simp add: r)
  qed
qed

theorem NormalizeHttpPath_idempotent_iff_witness:
  "NormalizeHttpPath (NormalizeHttpPath '' foo// '') = NormalizeHttpPath '' foo// ''
   \<and> NormalizeHttpPath '' foo// '' = ''/foo''"
proof -
  have n: "NormalizeHttpPath '' foo// '' = ''/foo''"
    by (simp add: normalize_eval)
  have "\<not> IsWhitespace (last (NormalizeHttpPath '' foo// ''))"
    by (simp add: n IsWhitespace_def)
  then show ?thesis
    using NormalizeHttpPath_idempotent_iff [of "'' foo// ''"] n by simp
qed

text \<open>
  C8: normalization is a total function (the loop is a recursion whose termination is
  proved above) and computes the four steps of the specification: \<open>normalize_spec\<close>
  states them with a trimming of its own, which cuts exactly the white space at both ends
  (what it removes is white space, and what it leaves neither starts nor ends with white
  space). It gives the six listed values; six more values show the trimming at work.
\<close>

theorem NormalizeHttpPath_total_four_steps:
  "NormalizeHttpPath s = normalize_spec s
   \<and> (\<exists>a b. s = a @ trim_spec s @ b \<and> list_all IsWhitespace a \<and> list_all IsWhitespace b)
   \<and> (trim_spec s = []
        \<or> \<not> IsWhitespace (hd (trim_spec s)) \<and> \<not> IsWhitespace (last (trim_spec s)))
   \<and> NormalizeHttpPath '''' = ''/''
   \<and> NormalizeHttpPath ''  '' = ''/''
   \<and> NormalizeHttpPath ''foo'' = ''/foo''
   \<and> NormalizeHttpPath ''/foo/'' = ''/foo''
   \<and> NormalizeHttpPath ''/foo//'' = ''/foo''
   \<and> NormalizeHttpPath ''/'' = ''/''
   \<and> NormalizeHttpPath '' foo'' = ''/foo''
   \<and> NormalizeHttpPath ''foo  '' = ''/foo''
   \<and> NormalizeHttpPath '' /foo/ '' = ''/foo''
   \<and> NormalizeHttpPath ''a b'' = ''/a b''
   \<and> NormalizeHttpPath (CHR 0x09 # ''foo'' @ [CHR 0x0A]) = ''/foo''
   \<and> NormalizeHttpPath ([CHR 0x0B, CHR 0x0C] @ ''foo'' @ [CHR 0x0D]) = ''/foo''"
proof -
  have "NormalizeHttpPath s = normalize_spec s" by (rule normalize_spec_eq)
  moreover note trim_spec_is_middle [of s] trim_spec_ends [of s]
  moreover have "NormalizeHttpPath '''' = ''/''" by (simp add: normalize_eval)
  moreover have "NormalizeHttpPath ''  '' = ''/''" by (simp add: normalize_eval)
  moreover have "NormalizeHttpPath ''foo'' = ''/foo''" by (simp add: normalize_eval)
  moreover have "NormalizeHttpPath ''/foo/'' = ''/foo''" by (simp add: normalize_eval)
  moreover have "NormalizeHttpPath ''/foo//'' = ''/foo''" by (simp add: normalize_eval)
  moreover have "NormalizeHttpPath ''/'' = ''/''" by (simp add: normalize_eval)
  moreover have "NormalizeHttpPath '' foo'' = ''/foo''" by (simp add: normalize_eval)
  moreover have "NormalizeHttpPath ''foo  '' = ''/foo''" by (simp add: normalize_eval)
  moreover have "NormalizeHttpPath '' /foo/ '' = ''/foo''" by (simp add: normalize_eval)
  moreover have "NormalizeHttpPath ''a b'' = ''/a b''" by (simp add: normalize_eval)
  moreover have "NormalizeHttpPath (CHR 0x09 # ''foo'' @ [CHR 0x0A]) = ''/foo''"
    by (simp add: normalize_eval)
  moreover have "NormalizeHttpPath ([CHR 0x0B, CHR 0x0C] @ ''foo'' @ [CHR 0x0D]) = ''/foo''"
    by (simp add: normalize_eval)
  ultimately show ?thesis by blast
qed

section \<open>Helper lemmas: registration\<close>

lemma BindRoute_RouteDelegates:
  "RouteDelegates (BindRoute p v d st) = (RouteDelegates st)(NormalizeHttpPath p \<mapsto> d)"
  by (simp add: BindRoute_def Let_def split: option.splits prod.splits)

lemma BindRoute_RouteHandlers: "RouteHandlers (BindRoute p v d st) = RouteHandlers st"
  by (simp add: BindRoute_def Let_def split: option.splits prod.splits)

lemma BindRoute_RouteVerbs:
  "RouteVerbs (BindRoute p v d st) =
     (RouteVerbs st)(NormalizeHttpPath p \<mapsto> merged_verbs (RouteVerbs st (NormalizeHttpPath p)) v)"
  by (simp add: BindRoute_def Let_def merged_verbs_def split: option.splits prod.splits)

lemma BindRoute_HttpRouter: "HttpRouter (BindRoute p v d st) = HttpRouter st"
  by (simp add: BindRoute_def Let_def split: option.splits prod.splits)

lemma BindRouteNative_RouteHandlers:
  "RouteHandlers (BindRouteNative p v h st) = (RouteHandlers st)(NormalizeHttpPath p \<mapsto> h)"
  by (simp add: BindRouteNative_def Let_def split: option.splits prod.splits)

lemma BindRouteNative_RouteDelegates: "RouteDelegates (BindRouteNative p v h st) = RouteDelegates st"
  by (simp add: BindRouteNative_def Let_def split: option.splits prod.splits)

lemma BindRouteNative_RouteVerbs:
  "RouteVerbs (BindRouteNative p v h st) =
     (RouteVerbs st)(NormalizeHttpPath p \<mapsto> merged_verbs (RouteVerbs st (NormalizeHttpPath p)) v)"
  by (simp add: BindRouteNative_def Let_def merged_verbs_def split: option.splits prod.splits)

lemma BindRouteNative_HttpRouter: "HttpRouter (BindRouteNative p v h st) = HttpRouter st"
  by (simp add: BindRouteNative_def Let_def split: option.splits prod.splits)

section \<open>Claims: the route table\<close>

text \<open>
  C6: a registration overwrites the handler of its own kind for the normalized path and
  leaves the table of the other kind as it was.
\<close>

theorem registration_overwrites_own_kind_only:
  "RouteDelegates (BindRoute p v d st) = (RouteDelegates st)(NormalizeHttpPath p \<mapsto> d)
   \<and> RouteHandlers (BindRoute p v d st) = RouteHandlers st
   \<and> RouteHandlers (BindRouteNative p v h st) = (RouteHandlers st)(NormalizeHttpPath p \<mapsto> h)
   \<and> RouteDelegates (BindRouteNative p v h st) = RouteDelegates st"
  by (simp add: BindRoute_RouteDelegates BindRoute_RouteHandlers BindRouteNative_RouteHandlers
      BindRouteNative_RouteDelegates)

section \<open>Helper lemmas: stopping\<close>

lemma calls_unbind_all:
  "calls (foldl (\<lambda>m h. Router_UnbindRoute R h m) m hs) = calls m @ map (UnbindRoute_call R) hs"
  by (induction hs arbitrary: m) (simp_all add: Router_UnbindRoute_def Let_def)

lemma StopServer_CreatedRouteHandlers: "CreatedRouteHandlers (StopServer st) = CreatedRouteHandlers st"
  by (simp add: StopServer_def Let_def split: option.splits)

lemma StopServer_bServerStarted: "bServerStarted (StopServer st) = bServerStarted st"
  by (simp add: StopServer_def Let_def split: option.splits)

lemma StopServer_HttpRouter: "HttpRouter (StopServer st) = HttpRouter st"
  by (simp add: StopServer_def Let_def split: option.splits)

lemma StopServer_flag:
  "bRootPreprocessorRegistered (StopServer st) =
     (if HttpRouter st = None then bRootPreprocessorRegistered st else False)"
  by (simp add: StopServer_def Let_def split: option.splits)

lemma StopServer_frame:
  "StopServer st =
     st\<lparr>bRootPreprocessorRegistered := bRootPreprocessorRegistered (StopServer st),
        Engine := Engine (StopServer st)\<rparr>"
  by (simp add: StopServer_def Let_def split: option.splits)

lemma StopServer_calls:
  "HttpRouter st = Some R \<Longrightarrow>
   calls (Engine (StopServer st)) =
     calls (Engine st) @ [StopAllListeners_call]
       @ (if bRootPreprocessorRegistered st
          then [UnregisterRequestPreprocessor_call R (RootRequestPreprocessorHandle st)] else [])
       @ map (UnbindRoute_call R) (CreatedRouteHandlers st)"
  by (simp add: StopServer_def Let_def calls_unbind_all StopAllListeners_def
      Router_UnregisterRequestPreprocessor_def)

lemma StopServer_calls_invalid:
  "HttpRouter st = None \<Longrightarrow>
   calls (Engine (StopServer st)) = calls (Engine st) @ [StopAllListeners_call]"
  by (simp add: StopServer_def Let_def StopAllListeners_def)

text \<open>
  C10: stopping keeps the list of created route handles and the started flag; of the
  server's members only \<open>bRootPreprocessorRegistered\<close> changes (the engine is called);
  so with a valid router a second stop unbinds every accumulated handle again.
\<close>

theorem StopServer_keeps_handles_and_started_flag:
  "CreatedRouteHandlers (StopServer st) = CreatedRouteHandlers st
   \<and> bServerStarted (StopServer st) = bServerStarted st
   \<and> StopServer st =
       st\<lparr>bRootPreprocessorRegistered := bRootPreprocessorRegistered (StopServer st),
          Engine := Engine (StopServer st)\<rparr>
   \<and> bRootPreprocessorRegistered (StopServer st) =
       (if HttpRouter st = None then bRootPreprocessorRegistered st else False)
   \<and> (HttpRouter st = Some R \<longrightarrow>
        calls (Engine (StopServer st)) =
          calls (Engine st) @ [StopAllListeners_call]
            @ (if bRootPreprocessorRegistered st
               then [UnregisterRequestPreprocessor_call R (RootRequestPreprocessorHandle st)]
               else [])
            @ map (UnbindRoute_call R) (CreatedRouteHandlers st)
        \<and> calls (Engine (StopServer (StopServer st))) =
          calls (Engine (StopServer st)) @ [StopAllListeners_call]
            @ map (UnbindRoute_call R) (CreatedRouteHandlers st))"
proof -
  have "calls (Engine (StopServer (StopServer st))) =
          calls (Engine (StopServer st)) @ [StopAllListeners_call]
            @ map (UnbindRoute_call R) (CreatedRouteHandlers st)"
    if R: "HttpRouter st = Some R"
  proof -
    have "HttpRouter (StopServer st) = Some R" by (simp add: StopServer_HttpRouter R)
    from StopServer_calls [OF this] show ?thesis
      by (simp add: StopServer_flag R StopServer_CreatedRouteHandlers)
  qed
  moreover note StopServer_frame [of st]
  ultimately show ?thesis
    using StopServer_calls [of st R]
    by (simp add: StopServer_CreatedRouteHandlers StopServer_bServerStarted StopServer_flag)
qed


lemmas engine_eval =
  GetHttpRouter_def StartAllListeners_def StopAllListeners_def Router_BindRoute_def
  Router_UnbindRoute_def Router_RegisterRequestPreprocessor_def
  Router_UnregisterRequestPreprocessor_def MakeHttpPathForRoute_def IsRoot_def
  fresh_engine_def constructed_def

lemmas server_eval =
  StartServer_def BindRoutes_def BindRoute_def BindRouteNative_def StopServer_def Let_def

lemma started_eval:
  "started =
     \<lparr>CurrentServerPort = 8080, HttpRouter = Some 8080, bServerStarted = True,
      bRootPreprocessorRegistered = False, RootRequestPreprocessorHandle = 0,
      RouteDelegates = Map.empty, RouteVerbs = Map.empty, RouteHandlers = Map.empty,
      CreatedRouteHandlers = [],
      Engine = fresh_engine\<lparr>listening := True,
                 calls := [GetHttpRouter_call 8080, StartAllListeners_call]\<rparr>\<rparr>"
  by (simp add: started_def server_eval engine_eval)

lemma both_kinds_fields:
  "HttpRouter both_kinds = Some 8080"
  "CreatedRouteHandlers both_kinds = [0, 1]"
  "bServerStarted both_kinds"
  "bound_routes (routers (Engine both_kinds) 8080) =
     [\<lparr>route_handle = 0, route_path = ''/b'', route_verbs = 1,
        route_lambda = CallsHandleRequestNative ''/b''\<rparr>,
      \<lparr>route_handle = 1, route_path = ''/b'', route_verbs = 1,
        route_lambda = CallsHandleRequest ''/b''\<rparr>]"
  "preprocessors (routers (Engine both_kinds) 8080) = []"
  "RouteDelegates both_kinds ''/b'' = Some (BoundTo (\<lambda>_. example_response))"
  "RouteHandlers both_kinds ''/b'' = Some 7"
  by (simp_all add: both_kinds_def started_eval server_eval engine_eval normalize_eval VERB_GET_def)

theorem StopServer_keeps_handles_and_started_flag_witness:
  "HttpRouter both_kinds = Some 8080
   \<and> CreatedRouteHandlers (StopServer both_kinds) = [0, 1]
   \<and> bServerStarted (StopServer both_kinds)
   \<and> calls (Engine (StopServer (StopServer both_kinds))) =
       calls (Engine (StopServer both_kinds))
         @ [StopAllListeners_call, UnbindRoute_call 8080 0, UnbindRoute_call 8080 1]"
  using StopServer_keeps_handles_and_started_flag [of both_kinds 8080]
  by (simp add: both_kinds_fields)

section \<open>Helper lemmas: request translation\<close>

lemma foldl_flatten:
  "foldl (\<lambda>StrHeaderVals val. StrHeaderVals @ (val @ '' '')) acc vals =
     acc @ concat (map (\<lambda>val. val @ '' '') vals)"
  by (induction vals arbitrary: acc) simp_all

lemma FlattenHeaderValues_concat:
  "FlattenHeaderValues vals = concat (map (\<lambda>val. val @ '' '') vals)"
  by (simp add: FlattenHeaderValues_def foldl_flatten)

lemma concat_is_join_and_space:
  "vals \<noteq> [] \<Longrightarrow> concat (map (\<lambda>val. val @ '' '') vals) = join_with_spaces vals @ '' ''"
  by (induction vals rule: join_with_spaces.induct) simp_all

lemma map_of_added_headers:
  "map_of (foldl (\<lambda>Headers Header. AList.update (fst Header) (F (snd Header)) Headers) H0 hs) k =
     (case map_of (rev hs) k of None \<Rightarrow> map_of H0 k | Some vals \<Rightarrow> Some (F vals))"
  by (induction hs rule: rev_induct) (simp_all add: update_conv')

lemma map_of_rev_distinct:
  "distinct (map fst hs) \<Longrightarrow> (k, v) \<in> set hs \<Longrightarrow> map_of (rev hs) k = Some v"
  by (rule map_of_is_SomeI) (simp_all add: rev_map [symmetric])

lemma native_Headers_FillNativeRequst:
  "distinct (map fst (req_Headers Request)) \<Longrightarrow> (name, vals) \<in> set (req_Headers Request) \<Longrightarrow>
   map_of (native_Headers (FillNativeRequst Request NativeRequest)) name =
     Some (FlattenHeaderValues vals)"
  by (simp add: FillNativeRequst_def map_of_added_headers map_of_rev_distinct)

section \<open>Claims: request translation\<close>

text \<open>
  C9, as the code has it. The claim says that the values of a header are joined with
  single spaces. The loop appends a space after every value, also after the last one:
  the values \<open>a\<close>, \<open>b\<close> become \<open>"a b "\<close>, not \<open>"a b"\<close>.
\<close>

theorem FillNativeRequst_header_not_joined:
  "map_of (native_Headers (FillNativeRequst accept_request empty_native_request)) ''Accept''
     = Some ''a b ''
   \<and> join_with_spaces [''a'', ''b''] = ''a b''
   \<and> map_of (native_Headers (FillNativeRequst accept_request empty_native_request)) ''Accept''
     \<noteq> Some (join_with_spaces [''a'', ''b''])"
  by (simp add: FillNativeRequst_def FlattenHeaderValues_def accept_request_def
      example_request_def empty_native_request_def)

text \<open>
  C9, amended: for every header of a request (a map: the names are distinct), the
  translated request maps the name to the concatenation of the values, each followed by
  one space; that is the space-joined values followed by one more space when there is a
  value.
\<close>

theorem FillNativeRequst_header_values_each_followed_by_space:
  assumes "distinct (map fst (req_Headers Request))"
    and "(name, vals) \<in> set (req_Headers Request)"
  shows "map_of (native_Headers (FillNativeRequst Request NativeRequest)) name
           = Some (concat (map (\<lambda>val. val @ '' '') vals))
         \<and> (vals \<noteq> [] \<longrightarrow>
              map_of (native_Headers (FillNativeRequst Request NativeRequest)) name
                = Some (join_with_spaces vals @ '' ''))"
  using native_Headers_FillNativeRequst [OF assms, of NativeRequest]
  by (simp add: FlattenHeaderValues_concat concat_is_join_and_space)

theorem FillNativeRequst_header_values_each_followed_by_space_witness:
  "distinct (map fst (req_Headers accept_request))
   \<and> (''Accept'', [''a'', ''b'']) \<in> set (req_Headers accept_request)
   \<and> map_of (native_Headers (FillNativeRequst accept_request empty_native_request)) ''Accept''
       = Some (join_with_spaces [''a'', ''b''] @ '' '')"
proof -
  have d: "distinct (map fst (req_Headers accept_request))"
    by (simp add: accept_request_def)
  have m: "(''Accept'', [''a'', ''b'']) \<in> set (req_Headers accept_request)"
    by (simp add: accept_request_def)
  show ?thesis
    using d m FillNativeRequst_header_values_each_followed_by_space
      [OF d m, of empty_native_request]
    by simp
qed

section \<open>Helper lemmas: dispatch\<close>

lemma HandleRequest_not_found:
  "RouteDelegates st p = None \<Longrightarrow>
   HandleRequest st p Request =
     \<lparr>returned = True, completed = [FHttpServerResponse_Error NotFound], invoked = []\<rparr>"
  by (simp add: HandleRequest_def Let_def)

lemma HandleRequest_unbound:
  "RouteDelegates st p = Some Unbound \<Longrightarrow>
   HandleRequest st p Request =
     \<lparr>returned = True, completed = [FHttpServerResponse_Error NotFound], invoked = []\<rparr>"
  by (simp add: HandleRequest_def Let_def)

lemma HandleRequest_bound:
  "RouteDelegates st p = Some (BoundTo f) \<Longrightarrow>
   HandleRequest st p Request =
     \<lparr>returned = True,
      completed = [HttpServerResponse (f (FillNativeRequst Request empty_native_request))],
      invoked = [Executed (BoundTo f) (FillNativeRequst Request empty_native_request)]\<rparr>"
  by (simp add: HandleRequest_def Let_def)

lemma HandleRequest_completes_once: "length (completed (HandleRequest st p Request)) = 1"
  by (simp add: HandleRequest_def Let_def split: option.splits FHttpServerRequestDelegate.splits)

lemma HandleRequest_returns: "returned (HandleRequest st p Request)"
  by (simp add: HandleRequest_def Let_def split: option.splits FHttpServerRequestDelegate.splits)

lemma HandleRequest_never_calls:
  "Called h n \<notin> set (invoked (HandleRequest st p Request))"
  by (simp add: HandleRequest_def Let_def split: option.splits FHttpServerRequestDelegate.splits)

lemma HandleRequestNative_not_found:
  "RouteHandlers st p = None \<Longrightarrow>
   HandleRequestNative st p Request =
     \<lparr>returned = True, completed = [FHttpServerResponse_Error NotFound], invoked = []\<rparr>"
  by (simp add: HandleRequestNative_def Let_def)

lemma HandleRequestNative_found:
  "RouteHandlers st p = Some h \<Longrightarrow>
   HandleRequestNative st p Request =
     \<lparr>returned = True, completed = [],
      invoked = [Called h (FillNativeRequst Request empty_native_request)]\<rparr>"
  by (simp add: HandleRequestNative_def Let_def)

lemma HandleRequestNative_returns: "returned (HandleRequestNative st p Request)"
  by (simp add: HandleRequestNative_def Let_def split: option.splits)

lemma RootRequestPreprocessor_not_root:
  "\<not> IsRoot (req_RelativePath Request) \<Longrightarrow> RootRequestPreprocessor st Request = not_handled"
  by (simp add: RootRequestPreprocessor_def)

lemma RootRequestPreprocessor_verb_refused:
  "RouteVerbs st ''/'' = Some AllowedVerbs \<Longrightarrow> \<not> VerbsMatch AllowedVerbs (req_Verb Request) \<Longrightarrow>
   RootRequestPreprocessor st Request = not_handled"
  by (simp add: RootRequestPreprocessor_def)

lemma RootRequestPreprocessor_callback:
  "IsRoot (req_RelativePath Request) \<Longrightarrow> verb_allowed_at_root st Request \<Longrightarrow>
   RouteDelegates st ''/'' \<noteq> None \<Longrightarrow>
   RootRequestPreprocessor st Request = HandleRequest st ''/'' Request"
  by (auto simp: RootRequestPreprocessor_def verb_allowed_at_root_def split: option.splits)

lemma RootRequestPreprocessor_direct:
  "IsRoot (req_RelativePath Request) \<Longrightarrow> verb_allowed_at_root st Request \<Longrightarrow>
   RouteDelegates st ''/'' = None \<Longrightarrow> RouteHandlers st ''/'' \<noteq> None \<Longrightarrow>
   RootRequestPreprocessor st Request = HandleRequestNative st ''/'' Request"
  by (auto simp: RootRequestPreprocessor_def verb_allowed_at_root_def split: option.splits)

lemma RootRequestPreprocessor_calls_only_without_callback:
  "Called h n \<in> set (invoked (RootRequestPreprocessor st Request)) \<Longrightarrow>
   RouteDelegates st ''/'' = None"
  by (auto simp: RootRequestPreprocessor_def not_handled_def HandleRequest_never_calls
      split: if_splits)


lemma BindRoute_root:
  assumes "HttpRouter st = Some R" and "NormalizeHttpPath p = ''/''"
  shows "bound_routes (routers (Engine (BindRoute p v d st)) R) = bound_routes (routers (Engine st) R)"
    and "CreatedRouteHandlers (BindRoute p v d st) = CreatedRouteHandlers st"
    and "bRootPreprocessorRegistered (BindRoute p v d st)"
    and "preprocessors (routers (Engine (BindRoute p v d st)) R) =
           (if bRootPreprocessorRegistered st then preprocessors (routers (Engine st) R)
            else preprocessors (routers (Engine st) R)
                   @ [RootRequestPreprocessorHandle (BindRoute p v d st)])"
  using assms
  by (simp_all add: BindRoute_def Let_def Router_RegisterRequestPreprocessor_def
      split: option.splits)

lemma BindRouteNative_root:
  assumes "HttpRouter st = Some R" and "NormalizeHttpPath p = ''/''"
  shows "bound_routes (routers (Engine (BindRouteNative p v h st)) R) = bound_routes (routers (Engine st) R)"
    and "CreatedRouteHandlers (BindRouteNative p v h st) = CreatedRouteHandlers st"
    and "bRootPreprocessorRegistered (BindRouteNative p v h st)"
    and "preprocessors (routers (Engine (BindRouteNative p v h st)) R) =
           (if bRootPreprocessorRegistered st then preprocessors (routers (Engine st) R)
            else preprocessors (routers (Engine st) R)
                   @ [RootRequestPreprocessorHandle (BindRouteNative p v h st)])"
  using assms
  by (simp_all add: BindRouteNative_def Let_def Router_RegisterRequestPreprocessor_def
      split: option.splits)

lemma root_both_fields:
  "HttpRouter root_both = Some 8080"
  "CreatedRouteHandlers root_both = []"
  "bRootPreprocessorRegistered root_both"
  "bound_routes (routers (Engine root_both) 8080) = []"
  "preprocessors (routers (Engine root_both) 8080) = [0]"
  "RouteVerbs root_both ''/'' = Some 3"
  "RouteDelegates root_both ''/'' = Some (BoundTo (\<lambda>_. example_response))"
  "RouteHandlers root_both ''/'' = Some 9"
  by (simp_all add: root_both_def started_eval server_eval engine_eval normalize_eval
      VERB_GET_def VERB_POST_def)

lemma HandleRequest_not_found_iff:
  "HandleRequest st p Request =
     \<lparr>returned = True, completed = [FHttpServerResponse_Error NotFound], invoked = []\<rparr>
   \<longleftrightarrow> (RouteDelegates st p = None \<or> RouteDelegates st p = Some Unbound)"
proof (cases "RouteDelegates st p")
  case None
  then show ?thesis by (simp add: HandleRequest_not_found)
next
  case (Some d)
  then show ?thesis
    by (cases d) (simp_all add: HandleRequest_unbound HandleRequest_bound)
qed

lemma HandleRequestNative_not_found_iff:
  "HandleRequestNative st p Request =
     \<lparr>returned = True, completed = [FHttpServerResponse_Error NotFound], invoked = []\<rparr>
   \<longleftrightarrow> RouteHandlers st p = None"
  by (cases "RouteHandlers st p") (simp_all add: HandleRequestNative_not_found HandleRequestNative_found)

lemma listener_dispatch_route:
  assumes "matching_routes st Request = rt # rts" and "\<not> IsRoot (req_RelativePath Request)"
  shows "listener_dispatch st Request = run_route_lambda st (route_lambda rt) Request"
proof (cases "HttpRouter st")
  case None
  then show ?thesis using assms(1) by (simp add: matching_routes_def)
next
  case (Some R)
  then show ?thesis
    using assms
    by (simp add: listener_dispatch_def Let_def RootRequestPreprocessor_not_root not_handled_def)
qed

lemma unbound_route_fields:
  "HttpRouter unbound_route = Some 8080"
  "RouteDelegates unbound_route ''/u'' = Some Unbound"
  "bound_routes (routers (Engine unbound_route) 8080) =
     [\<lparr>route_handle = 0, route_path = ''/u'', route_verbs = 1,
        route_lambda = CallsHandleRequest ''/u''\<rparr>]"
  by (simp_all add: unbound_route_def started_eval server_eval engine_eval normalize_eval
      VERB_GET_def)

section \<open>Claims: dispatch\<close>

text \<open>
  C4: \<open>HandleRequest\<close> and \<open>HandleRequestNative\<close> answer with the Not-Found response
  (status 404, empty body), passed to the completion callback exactly once before they
  return "handled" and with no handler run, exactly when no handler of their kind is
  found: no delegate in the table for the path, or one that is not bound (the case that
  a bound route reaches), respectively no direct handler in the table. \<open>HandleRequest\<close>
  completes exactly once in every case. The same holds where the calls come from: for
  the lambda of a bound route, for the listener serving a request through the first
  matching route, and for the root preprocessor.
\<close>

theorem not_found_completes_exactly_once:
  "(HandleRequest st p Request =
      \<lparr>returned = True, completed = [FHttpServerResponse_Error NotFound], invoked = []\<rparr>
    \<longleftrightarrow> (RouteDelegates st p = None \<or> RouteDelegates st p = Some Unbound))
   \<and> (HandleRequestNative st p Request =
      \<lparr>returned = True, completed = [FHttpServerResponse_Error NotFound], invoked = []\<rparr>
    \<longleftrightarrow> RouteHandlers st p = None)
   \<and> resp_Code (FHttpServerResponse_Error NotFound) = 404
   \<and> resp_Body (FHttpServerResponse_Error NotFound) = []
   \<and> length (completed (HandleRequest st p Request)) = 1
   \<and> (RouteDelegates st p = None \<or> RouteDelegates st p = Some Unbound \<longrightarrow>
        run_route_lambda st (CallsHandleRequest p) Request =
          \<lparr>returned = True, completed = [FHttpServerResponse_Error NotFound], invoked = []\<rparr>)
   \<and> (RouteHandlers st p = None \<longrightarrow>
        run_route_lambda st (CallsHandleRequestNative p) Request =
          \<lparr>returned = True, completed = [FHttpServerResponse_Error NotFound], invoked = []\<rparr>)
   \<and> (matching_routes st Request = rt # rts \<and> \<not> IsRoot (req_RelativePath Request)
        \<and> route_lambda rt = CallsHandleRequest p
        \<and> (RouteDelegates st p = None \<or> RouteDelegates st p = Some Unbound) \<longrightarrow>
        listener_dispatch st Request =
          \<lparr>returned = True, completed = [FHttpServerResponse_Error NotFound], invoked = []\<rparr>)
   \<and> (matching_routes st Request = rt # rts \<and> \<not> IsRoot (req_RelativePath Request)
        \<and> route_lambda rt = CallsHandleRequestNative p \<and> RouteHandlers st p = None \<longrightarrow>
        listener_dispatch st Request =
          \<lparr>returned = True, completed = [FHttpServerResponse_Error NotFound], invoked = []\<rparr>)
   \<and> (IsRoot (req_RelativePath Request) \<and> verb_allowed_at_root st Request
        \<and> RouteDelegates st ''/'' = Some Unbound \<longrightarrow>
        RootRequestPreprocessor st Request =
          \<lparr>returned = True, completed = [FHttpServerResponse_Error NotFound], invoked = []\<rparr>)"
proof -
  let ?nf = "\<lparr>returned = True, completed = [FHttpServerResponse_Error NotFound], invoked = []\<rparr>"
  have a: "run_route_lambda st (CallsHandleRequest p) Request = ?nf"
    if "RouteDelegates st p = None \<or> RouteDelegates st p = Some Unbound"
    using that HandleRequest_not_found_iff [of st p Request] by (simp add: run_route_lambda_def)
  have b: "run_route_lambda st (CallsHandleRequestNative p) Request = ?nf"
    if "RouteHandlers st p = None"
    using that by (simp add: run_route_lambda_def HandleRequestNative_not_found)
  have c: "listener_dispatch st Request = ?nf"
    if "matching_routes st Request = rt # rts" "\<not> IsRoot (req_RelativePath Request)"
      "route_lambda rt = CallsHandleRequest p"
      "RouteDelegates st p = None \<or> RouteDelegates st p = Some Unbound"
    using listener_dispatch_route [OF that(1,2)] a [OF that(4)] that(3) by simp
  have d: "listener_dispatch st Request = ?nf"
    if "matching_routes st Request = rt # rts" "\<not> IsRoot (req_RelativePath Request)"
      "route_lambda rt = CallsHandleRequestNative p" "RouteHandlers st p = None"
    using listener_dispatch_route [OF that(1,2)] b [OF that(4)] that(3) by simp
  have e: "RootRequestPreprocessor st Request = ?nf"
    if "IsRoot (req_RelativePath Request)" "verb_allowed_at_root st Request"
      "RouteDelegates st ''/'' = Some Unbound"
    using that by (simp add: RootRequestPreprocessor_callback HandleRequest_unbound)
  have f: "resp_Code (FHttpServerResponse_Error NotFound) = 404"
    "resp_Body (FHttpServerResponse_Error NotFound) = []"
    by (simp_all add: FHttpServerResponse_Error_def NotFound_def)
  from HandleRequest_not_found_iff [of st p Request]
    HandleRequestNative_not_found_iff [of st p Request]
    HandleRequest_completes_once [of st p Request] a b c d e f
  show ?thesis by blast
qed

theorem not_found_completes_exactly_once_witness:
  "RouteDelegates unbound_route ''/u'' = Some Unbound
   \<and> matching_routes unbound_route (example_request ''/u'' 1) =
       [\<lparr>route_handle = 0, route_path = ''/u'', route_verbs = 1,
          route_lambda = CallsHandleRequest ''/u''\<rparr>]
   \<and> listener_dispatch unbound_route (example_request ''/u'' 1) =
       \<lparr>returned = True,
        completed = [\<lparr>resp_Code = 404, resp_Body = [], resp_Headers = [], resp_HttpVersion = 0\<rparr>],
        invoked = []\<rparr>
   \<and> RouteHandlers started ''/missing'' = None
   \<and> completed (HandleRequestNative started ''/missing'' (example_request ''/missing'' 1)) =
       [\<lparr>resp_Code = 404, resp_Body = [], resp_Headers = [], resp_HttpVersion = 0\<rparr>]"
proof -
  have u: "RouteDelegates unbound_route ''/u'' = Some Unbound"
    by (rule unbound_route_fields)
  have m: "matching_routes unbound_route (example_request ''/u'' 1) =
       [\<lparr>route_handle = 0, route_path = ''/u'', route_verbs = 1,
          route_lambda = CallsHandleRequest ''/u''\<rparr>]"
    by (simp add: matching_routes_def unbound_route_fields route_matches_def example_request_def)
  have r: "\<not> IsRoot (req_RelativePath (example_request ''/u'' 1))"
    by (simp add: IsRoot_def example_request_def)
  have h: "RouteHandlers started ''/missing'' = None"
    by (simp add: started_eval)
  have 1: "listener_dispatch unbound_route (example_request ''/u'' 1) =
       \<lparr>returned = True, completed = [FHttpServerResponse_Error NotFound], invoked = []\<rparr>"
    using u m r
      not_found_completes_exactly_once
        [where st = unbound_route and p = "''/u''" and Request = "example_request ''/u'' 1"
           and rt = "\<lparr>route_handle = 0, route_path = ''/u'', route_verbs = 1,
                       route_lambda = CallsHandleRequest ''/u''\<rparr>" and rts = "[]"]
    by simp
  have 2: "HandleRequestNative started ''/missing'' (example_request ''/missing'' 1) =
       \<lparr>returned = True, completed = [FHttpServerResponse_Error NotFound], invoked = []\<rparr>"
    using h
      not_found_completes_exactly_once
        [where st = started and p = "''/missing''" and Request = "example_request ''/missing'' 1"]
    by simp
  show ?thesis
    using u m h 1 2 by (simp add: FHttpServerResponse_Error_def NotFound_def)
qed

text \<open>
  C2, as the code has it. The claim gives the callback-style handler precedence on
  every path. Only the root preprocessor looks at both tables. For any other path each
  registration binds a route of its own, and the route that \<open>BindRouteNative\<close> binds calls
  \<open>HandleRequestNative\<close>, which never looks at \<open>RouteDelegates\<close>: with both kinds registered
  for \<open>/b\<close> the router holds two routes that match a GET of \<open>/b\<close>; the one bound first
  runs the direct handler and completes nothing.
\<close>

theorem direct_handler_runs_despite_callback:
  "RouteDelegates both_kinds ''/b'' = Some (BoundTo (\<lambda>_. example_response))
   \<and> RouteHandlers both_kinds ''/b'' = Some 7
   \<and> map route_lambda (matching_routes both_kinds (example_request ''/b'' 1)) =
       [CallsHandleRequestNative ''/b'', CallsHandleRequest ''/b'']
   \<and> run_route_lambda both_kinds (CallsHandleRequestNative ''/b'') (example_request ''/b'' 1) =
       \<lparr>returned = True, completed = [],
        invoked = [Called 7 (FillNativeRequst (example_request ''/b'' 1) empty_native_request)]\<rparr>
   \<and> listener_dispatch both_kinds (example_request ''/b'' 1) =
       \<lparr>returned = True, completed = [],
        invoked = [Called 7 (FillNativeRequst (example_request ''/b'' 1) empty_native_request)]\<rparr>"
proof -
  have m: "matching_routes both_kinds (example_request ''/b'' 1) =
     [\<lparr>route_handle = 0, route_path = ''/b'', route_verbs = 1,
        route_lambda = CallsHandleRequestNative ''/b''\<rparr>,
      \<lparr>route_handle = 1, route_path = ''/b'', route_verbs = 1,
        route_lambda = CallsHandleRequest ''/b''\<rparr>]"
    by (simp add: matching_routes_def both_kinds_fields route_matches_def example_request_def)
  have r: "run_route_lambda both_kinds (CallsHandleRequestNative ''/b'') (example_request ''/b'' 1) =
       \<lparr>returned = True, completed = [],
        invoked = [Called 7 (FillNativeRequst (example_request ''/b'' 1) empty_native_request)]\<rparr>"
    by (simp add: run_route_lambda_def HandleRequestNative_found both_kinds_fields)
  have l: "listener_dispatch both_kinds (example_request ''/b'' 1) =
      run_route_lambda both_kinds (CallsHandleRequestNative ''/b'') (example_request ''/b'' 1)"
    by (simp add: listener_dispatch_def both_kinds_fields m not_handled_def)
  show ?thesis by (simp add: both_kinds_fields m r l)
qed

text \<open>
  C2, amended: at the root path, where the root preprocessor dispatches, a request with
  an allowed verb runs only the callback-style handler when one is registered for
  \<open>"/"\<close>, the response of a bound delegate is what reaches the completion callback, and the
  direct handler runs only when no callback-style handler is registered for \<open>"/"\<close>. For
  any path, the handler that \<open>BindRoute\<close> binds (\<open>HandleRequest\<close>) runs only the callback
  and forwards its response, and the handler that \<open>BindRouteNative\<close> binds
  (\<open>HandleRequestNative\<close>) runs only the direct handler and completes nothing, whether or
  not a callback is registered for the path.
\<close>

theorem callback_precedence_at_root:
  "(IsRoot (req_RelativePath Request) \<and> verb_allowed_at_root st Request
      \<and> RouteDelegates st ''/'' = Some (BoundTo f) \<longrightarrow>
     RootRequestPreprocessor st Request =
       \<lparr>returned = True,
        completed = [HttpServerResponse (f (FillNativeRequst Request empty_native_request))],
        invoked = [Executed (BoundTo f) (FillNativeRequst Request empty_native_request)]\<rparr>)
   \<and> (Called h n \<in> set (invoked (RootRequestPreprocessor st Request)) \<longrightarrow>
        RouteDelegates st ''/'' = None)
   \<and> (IsRoot (req_RelativePath Request) \<and> verb_allowed_at_root st Request
      \<and> RouteDelegates st ''/'' = None \<and> RouteHandlers st ''/'' = Some h \<longrightarrow>
     RootRequestPreprocessor st Request =
       \<lparr>returned = True, completed = [],
        invoked = [Called h (FillNativeRequst Request empty_native_request)]\<rparr>)
   \<and> (RouteDelegates st p = Some (BoundTo f) \<longrightarrow>
     HandleRequest st p Request =
       \<lparr>returned = True,
        completed = [HttpServerResponse (f (FillNativeRequst Request empty_native_request))],
        invoked = [Executed (BoundTo f) (FillNativeRequst Request empty_native_request)]\<rparr>)
   \<and> (RouteHandlers st p = Some h \<longrightarrow>
     HandleRequestNative st p Request =
       \<lparr>returned = True, completed = [],
        invoked = [Called h (FillNativeRequst Request empty_native_request)]\<rparr>)"
proof -
  have "RootRequestPreprocessor st Request =
       \<lparr>returned = True,
        completed = [HttpServerResponse (f (FillNativeRequst Request empty_native_request))],
        invoked = [Executed (BoundTo f) (FillNativeRequst Request empty_native_request)]\<rparr>"
    if "IsRoot (req_RelativePath Request)" "verb_allowed_at_root st Request"
      "RouteDelegates st ''/'' = Some (BoundTo f)"
    using that by (simp add: RootRequestPreprocessor_callback HandleRequest_bound)
  moreover have "RootRequestPreprocessor st Request =
       \<lparr>returned = True, completed = [],
        invoked = [Called h (FillNativeRequst Request empty_native_request)]\<rparr>"
    if "IsRoot (req_RelativePath Request)" "verb_allowed_at_root st Request"
      "RouteDelegates st ''/'' = None" "RouteHandlers st ''/'' = Some h"
    using that by (simp add: RootRequestPreprocessor_direct HandleRequestNative_found)
  ultimately show ?thesis
    using RootRequestPreprocessor_calls_only_without_callback [of h n st Request]
    by (simp add: HandleRequest_bound HandleRequestNative_found)
qed

theorem callback_precedence_at_root_witness:
  "IsRoot (req_RelativePath (example_request ''/'' 2))
   \<and> verb_allowed_at_root root_both (example_request ''/'' 2)
   \<and> RouteHandlers root_both ''/'' = Some 9
   \<and> RootRequestPreprocessor root_both (example_request ''/'' 2) =
       \<lparr>returned = True, completed = [HttpServerResponse example_response],
        invoked = [Executed (BoundTo (\<lambda>_. example_response))
                     (FillNativeRequst (example_request ''/'' 2) empty_native_request)]\<rparr>
   \<and> HandleRequestNative both_kinds ''/b'' (example_request ''/b'' 1) =
       \<lparr>returned = True, completed = [],
        invoked = [Called 7 (FillNativeRequst (example_request ''/b'' 1) empty_native_request)]\<rparr>"
proof -
  have r: "IsRoot (req_RelativePath (example_request ''/'' 2))"
    by (simp add: IsRoot_def example_request_def)
  have a: "verb_allowed_at_root root_both (example_request ''/'' 2)"
    by (simp add: verb_allowed_at_root_def root_both_fields VerbsMatch_def example_request_def)
  have "RootRequestPreprocessor root_both (example_request ''/'' 2) =
       \<lparr>returned = True, completed = [HttpServerResponse example_response],
        invoked = [Executed (BoundTo (\<lambda>_. example_response))
                     (FillNativeRequst (example_request ''/'' 2) empty_native_request)]\<rparr>"
    using r a callback_precedence_at_root
      [where Request = "example_request ''/'' 2" and st = root_both
         and f = "\<lambda>_. example_response"]
    by (simp add: root_both_fields)
  moreover have "HandleRequestNative both_kinds ''/b'' (example_request ''/b'' 1) =
       \<lparr>returned = True, completed = [],
        invoked = [Called 7 (FillNativeRequst (example_request ''/b'' 1) empty_native_request)]\<rparr>"
    using callback_precedence_at_root
      [where Request = "example_request ''/b'' 1" and st = both_kinds and p = "''/b''" and h = 7]
    by (simp add: both_kinds_fields)
  ultimately show ?thesis using r a by (simp add: root_both_fields)
qed

section \<open>Helper lemmas: verb masks\<close>

lemma verbs_within_bits:
  "verbs_within rv m \<longleftrightarrow> (\<forall>n. bit rv n \<longrightarrow> bit m n)"
proof
  assume w: "verbs_within rv m"
  show "\<forall>n. bit rv n \<longrightarrow> bit m n"
  proof (intro allI impI)
    fix n assume b: "bit rv n"
    then have "n < 16" using bit_imp_le_length [of rv n] by simp
    with w b show "bit m n"
      by (auto simp: verbs_within_def bit_eq_iff bit_simps)
  qed
next
  assume "\<forall>n. bit rv n \<longrightarrow> bit m n"
  then show "verbs_within rv m"
    by (auto simp: verbs_within_def bit_eq_iff bit_simps)
qed

lemma VerbsMatch_bits:
  "VerbsMatch m w \<longleftrightarrow> (\<exists>n. bit m n \<and> bit w n)"
proof
  assume "VerbsMatch m w"
  then show "\<exists>n. bit m n \<and> bit w n"
    by (auto simp: VerbsMatch_def Let_def bit_eq_iff bit_simps)
next
  assume "\<exists>n. bit m n \<and> bit w n"
  then obtain n where n: "bit m n" "bit w n" by blast
  then have "n < 8" using bit_imp_le_length [of m n] by simp
  with n show "VerbsMatch m w"
    by (auto simp: VerbsMatch_def Let_def bit_eq_iff bit_simps)
qed

lemma verbs_within_own: "verbs_within (ucast v) (merged_verbs old v)"
  by (cases old) (auto simp: verbs_within_bits merged_verbs_def bit_simps)

lemma verbs_within_grows: "verbs_within rv e \<Longrightarrow> verbs_within rv (merged_verbs (Some e) v)"
  by (auto simp: verbs_within_bits merged_verbs_def bit_simps)

lemma verbs_within_no_match:
  "verbs_within rv m \<Longrightarrow> \<not> VerbsMatch m w \<Longrightarrow> rv AND w = 0"
  by (auto simp: verbs_within_bits VerbsMatch_bits bit_eq_iff bit_simps)

lemma merged_verbs_contains:
  "merged_verbs old v AND v = v"
  "old = Some e \<Longrightarrow> merged_verbs old v AND e = e"
  by (auto simp: merged_verbs_def bit_eq_iff bit_simps split: option.splits)


section \<open>Helper lemmas: what a registration does\<close>

lemma register_HttpRouter: "HttpRouter (register r st) = HttpRouter st"
  by (cases r) (simp_all add: BindRoute_HttpRouter BindRouteNative_HttpRouter)

lemma register_RouteVerbs:
  "RouteVerbs (register r st) =
     (RouteVerbs st)(NormalizeHttpPath (reg_path r) \<mapsto>
        merged_verbs (RouteVerbs st (NormalizeHttpPath (reg_path r))) (reg_verbs r))"
  by (cases r) (simp_all add: BindRoute_RouteVerbs BindRouteNative_RouteVerbs)

lemma BindRoute_bound_routes:
  "bound_routes (routers (Engine (BindRoute p v d st)) R) =
     bound_routes (routers (Engine st) R)
       @ (if HttpRouter st = Some R \<and> bindable (Engine st) (Callback p v d)
          then [new_route (Engine st) (Callback p v d)] else [])"
  by (simp add: BindRoute_def Let_def bindable_def new_route_def Router_BindRoute_def
      Router_RegisterRequestPreprocessor_def MakeHttpPathForRoute_def split: option.splits)

lemma BindRouteNative_bound_routes:
  "bound_routes (routers (Engine (BindRouteNative p v h st)) R) =
     bound_routes (routers (Engine st) R)
       @ (if HttpRouter st = Some R \<and> bindable (Engine st) (Direct p v h)
          then [new_route (Engine st) (Direct p v h)] else [])"
  by (simp add: BindRouteNative_def Let_def bindable_def new_route_def Router_BindRoute_def
      Router_RegisterRequestPreprocessor_def MakeHttpPathForRoute_def split: option.splits)

lemma register_bound_routes:
  "bound_routes (routers (Engine (register r st)) R) =
     bound_routes (routers (Engine st) R)
       @ (if HttpRouter st = Some R \<and> bindable (Engine st) r
          then [new_route (Engine st) r] else [])"
  by (cases r) (simp_all only: register.simps BindRoute_bound_routes BindRouteNative_bound_routes)

lemma routes_within_table_register:
  assumes "routes_within_table st"
  shows "routes_within_table (register r st)"
proof (cases "HttpRouter st")
  case None
  then show ?thesis by (simp add: routes_within_table_def register_HttpRouter)
next
  case (Some R)
  let ?np = "NormalizeHttpPath (reg_path r)"
  let ?inside = "\<lambda>tab rt. case tab (route_path rt) of
                     None \<Rightarrow> False | Some Mask \<Rightarrow> verbs_within (route_verbs rt) Mask"
  have old: "list_all (?inside (RouteVerbs st)) (bound_routes (routers (Engine st) R))"
    using assms Some by (simp add: routes_within_table_def)
  have grow: "?inside (RouteVerbs (register r st)) rt" if "?inside (RouteVerbs st) rt" for rt
    using that
    by (auto simp: register_RouteVerbs verbs_within_grows split: option.splits)
  have new: "?inside (RouteVerbs (register r st)) (new_route (Engine st) r)"
    by (simp add: register_RouteVerbs new_route_def verbs_within_own)
  have "list_all (?inside (RouteVerbs (register r st)))
          (bound_routes (routers (Engine (register r st)) R))"
    using old grow new by (auto simp: register_bound_routes list_all_iff)
  then show ?thesis
    using Some by (simp add: routes_within_table_def register_HttpRouter)
qed

lemma no_matching_route:
  assumes "routes_within_table st"
    and "RouteVerbs st (req_RelativePath Request) = Some Mask"
    and "\<not> VerbsMatch Mask (req_Verb Request)"
  shows "matching_routes st Request = []"
proof (cases "HttpRouter st")
  case None
  then show ?thesis by (simp add: matching_routes_def)
next
  case (Some R)
  have "\<not> route_matches rt Request" if "rt \<in> set (bound_routes (routers (Engine st) R))" for rt
  proof
    assume m: "route_matches rt Request"
    then have p: "route_path rt = req_RelativePath Request"
      by (simp add: route_matches_def)
    from assms(1) Some that have "verbs_within (route_verbs rt) Mask"
      by (auto simp: routes_within_table_def list_all_iff p assms(2) split: option.splits)
    then have "route_verbs rt AND req_Verb Request = 0"
      using assms(3) by (rule verbs_within_no_match)
    with m show False by (simp add: route_matches_def)
  qed
  then show ?thesis using Some by (simp add: matching_routes_def filter_empty_conv)
qed

lemma listener_leaves_unmatched:
  assumes "routes_within_table st"
    and "RouteVerbs st (req_RelativePath Request) = Some Mask"
    and "\<not> VerbsMatch Mask (req_Verb Request)"
  shows "listener_dispatch st Request = not_handled"
proof -
  have pre: "RootRequestPreprocessor st Request = not_handled"
  proof (cases "IsRoot (req_RelativePath Request)")
    case True
    then have "RouteVerbs st ''/'' = Some Mask" using assms(2) by (simp add: IsRoot_def)
    then show ?thesis using assms(3) by (rule RootRequestPreprocessor_verb_refused)
  next
    case False
    then show ?thesis by (rule RootRequestPreprocessor_not_root)
  qed
  show ?thesis
    using no_matching_route [OF assms]
    by (simp add: listener_dispatch_def Let_def pre not_handled_def split: option.splits)
qed


lemma routes_within_table_started: "routes_within_table started"
  by (simp add: routes_within_table_def started_eval fresh_engine_def)

section \<open>Claims: verb masks\<close>

text \<open>
  C3: two registrations of one path, each by either mechanism, leave in \<open>RouteVerbs\<close>
  the bitwise OR of the mask that was there and the two masks given: it contains every
  verb of both registrations and every verb that was there. A request for that path
  whose verb is outside the merged mask is unmatched: the root preprocessor does not
  handle it and no bound route matches it, provided that the routes bound in the server's
  router lie within its table.
\<close>

theorem verbs_merge_by_or:
  assumes "NormalizeHttpPath (reg_path r1) = np" and "NormalizeHttpPath (reg_path r2) = np"
  shows "RouteVerbs (register r2 (register r1 st)) np =
           Some (merged_verbs (RouteVerbs st np) (reg_verbs r1) OR reg_verbs r2)
         \<and> (merged_verbs (RouteVerbs st np) (reg_verbs r1) OR reg_verbs r2) AND reg_verbs r1
             = reg_verbs r1
         \<and> (merged_verbs (RouteVerbs st np) (reg_verbs r1) OR reg_verbs r2) AND reg_verbs r2
             = reg_verbs r2
         \<and> (RouteVerbs st np = Some e \<longrightarrow>
              (merged_verbs (RouteVerbs st np) (reg_verbs r1) OR reg_verbs r2) AND e = e)
         \<and> (routes_within_table st \<and> req_RelativePath Request = np
              \<and> \<not> VerbsMatch (merged_verbs (RouteVerbs st np) (reg_verbs r1) OR reg_verbs r2)
                    (req_Verb Request) \<longrightarrow>
              RootRequestPreprocessor (register r2 (register r1 st)) Request = not_handled
              \<and> matching_routes (register r2 (register r1 st)) Request = []
              \<and> listener_dispatch (register r2 (register r1 st)) Request = not_handled)"
proof -
  let ?m = "merged_verbs (RouteVerbs st np) (reg_verbs r1) OR reg_verbs r2"
  let ?st = "register r2 (register r1 st)"
  have tab: "RouteVerbs ?st np = Some ?m"
    by (simp add: register_RouteVerbs assms merged_verbs_def)
  have c1: "?m AND reg_verbs r1 = reg_verbs r1"
    by (auto simp: merged_verbs_def bit_eq_iff bit_simps split: option.splits)
  have c2: "?m AND reg_verbs r2 = reg_verbs r2"
    by (auto simp: bit_eq_iff bit_simps)
  have c3: "?m AND e = e" if "RouteVerbs st np = Some e"
    using that by (auto simp: merged_verbs_def bit_eq_iff bit_simps)
  have un: "RootRequestPreprocessor ?st Request = not_handled
            \<and> matching_routes ?st Request = []
            \<and> listener_dispatch ?st Request = not_handled"
    if inv: "routes_within_table st" and p: "req_RelativePath Request = np"
      and v: "\<not> VerbsMatch ?m (req_Verb Request)"
  proof -
    have inv': "routes_within_table ?st"
      using inv by (intro routes_within_table_register)
    have tab': "RouteVerbs ?st (req_RelativePath Request) = Some ?m"
      using tab p by simp
    have "RootRequestPreprocessor ?st Request = not_handled"
    proof (cases "IsRoot (req_RelativePath Request)")
      case True
      then have "RouteVerbs ?st ''/'' = Some ?m" using tab' by (simp add: IsRoot_def)
      then show ?thesis using v by (rule RootRequestPreprocessor_verb_refused)
    next
      case False
      then show ?thesis by (rule RootRequestPreprocessor_not_root)
    qed
    then show ?thesis
      using no_matching_route [OF inv' tab' v] listener_leaves_unmatched [OF inv' tab' v]
      by simp
  qed
  from tab c1 c2 c3 un show ?thesis by blast
qed

lemma get_then_post_fields:
  "HttpRouter get_then_post = Some 8080"
  "RouteVerbs get_then_post ''/a'' = Some 3"
  "bound_routes (routers (Engine get_then_post) 8080) =
     [\<lparr>route_handle = 0, route_path = ''/a'', route_verbs = 1,
        route_lambda = CallsHandleRequest ''/a''\<rparr>,
      \<lparr>route_handle = 1, route_path = ''/a'', route_verbs = 2,
        route_lambda = CallsHandleRequestNative ''/a''\<rparr>]"
  "preprocessors (routers (Engine get_then_post) 8080) = []"
  by (simp_all add: get_then_post_def started_eval server_eval engine_eval normalize_eval
      VERB_GET_def VERB_POST_def)

theorem verbs_merge_by_or_witness:
  "NormalizeHttpPath ''/a'' = ''/a'' \<and> NormalizeHttpPath ''/a/'' = ''/a''
   \<and> routes_within_table started
   \<and> RouteVerbs get_then_post ''/a'' = Some (VERB_GET OR VERB_POST)
   \<and> \<not> VerbsMatch (VERB_GET OR VERB_POST) (ucast VERB_DELETE)
   \<and> listener_dispatch get_then_post (example_request ''/a'' (ucast VERB_DELETE)) = not_handled
   \<and> returned (listener_dispatch get_then_post (example_request ''/a'' (ucast VERB_GET)))
   \<and> returned (listener_dispatch get_then_post (example_request ''/a'' (ucast VERB_POST)))"
proof -
  have n: "NormalizeHttpPath ''/a'' = ''/a''" "NormalizeHttpPath ''/a/'' = ''/a''"
    by (simp_all add: normalize_eval)
  have old: "RouteVerbs started ''/a'' = None" by (simp add: started_eval)
  have v: "\<not> VerbsMatch (VERB_GET OR VERB_POST) (ucast VERB_DELETE)"
    by (simp add: VerbsMatch_def VERB_GET_def VERB_POST_def VERB_DELETE_def)
  have "RouteVerbs get_then_post ''/a'' = Some (VERB_GET OR VERB_POST)
        \<and> listener_dispatch get_then_post (example_request ''/a'' (ucast VERB_DELETE)) = not_handled"
    using verbs_merge_by_or
      [where ?r1.0 = "Callback ''/a'' VERB_GET (BoundTo (\<lambda>_. example_response))"
         and ?r2.0 = "Direct ''/a/'' VERB_POST 5" and np = "''/a''" and st = started
         and Request = "example_request ''/a'' (ucast VERB_DELETE)"]
      n v routes_within_table_started
    by (simp add: get_then_post_def old merged_verbs_def example_request_def)
  moreover have "returned (listener_dispatch get_then_post (example_request ''/a'' (ucast VERB_GET)))"
    by (simp add: listener_dispatch_def matching_routes_def get_then_post_fields not_handled_def
        route_matches_def example_request_def run_route_lambda_def HandleRequest_returns
        VERB_GET_def)
  moreover have "returned (listener_dispatch get_then_post (example_request ''/a'' (ucast VERB_POST)))"
    by (simp add: listener_dispatch_def matching_routes_def get_then_post_fields not_handled_def
        route_matches_def example_request_def run_route_lambda_def HandleRequestNative_returns
        VERB_POST_def)
  ultimately show ?thesis using n v routes_within_table_started by simp
qed

section \<open>Helper lemmas: start, stop and restart\<close>

lemma BindRoute_engine_frame:
  "IsValidPath (Engine (BindRoute p v d st)) = IsValidPath (Engine st)"
  "obtainable (Engine (BindRoute p v d st)) = obtainable (Engine st)"
  "listening (Engine (BindRoute p v d st)) = listening (Engine st)"
  "CurrentServerPort (BindRoute p v d st) = CurrentServerPort st"
  "bServerStarted (BindRoute p v d st) = bServerStarted st"
  by (simp_all add: BindRoute_def Let_def Router_BindRoute_def
      Router_RegisterRequestPreprocessor_def split: option.splits)

lemma BindRouteNative_engine_frame:
  "IsValidPath (Engine (BindRouteNative p v h st)) = IsValidPath (Engine st)"
  "obtainable (Engine (BindRouteNative p v h st)) = obtainable (Engine st)"
  "listening (Engine (BindRouteNative p v h st)) = listening (Engine st)"
  "CurrentServerPort (BindRouteNative p v h st) = CurrentServerPort st"
  "bServerStarted (BindRouteNative p v h st) = bServerStarted st"
  by (simp_all add: BindRouteNative_def Let_def Router_BindRoute_def
      Router_RegisterRequestPreprocessor_def split: option.splits)

lemma register_engine_frame:
  "IsValidPath (Engine (register r st)) = IsValidPath (Engine st)"
  "obtainable (Engine (register r st)) = obtainable (Engine st)"
  "listening (Engine (register r st)) = listening (Engine st)"
  "CurrentServerPort (register r st) = CurrentServerPort st"
  "bServerStarted (register r st) = bServerStarted st"
  by (cases r; simp add: BindRoute_engine_frame BindRouteNative_engine_frame)+

lemma bindable_register: "bindable (Engine (register r st)) r' = bindable (Engine st) r'"
  by (simp add: bindable_def register_engine_frame)

lemma BindRoute_CreatedRouteHandlers:
  "CreatedRouteHandlers (BindRoute p v d st) =
     CreatedRouteHandlers st
       @ (if HttpRouter st \<noteq> None \<and> bindable (Engine st) (Callback p v d)
          then [next_handle (Engine st)] else [])"
  by (simp add: BindRoute_def Let_def bindable_def Router_BindRoute_def
      Router_RegisterRequestPreprocessor_def MakeHttpPathForRoute_def split: option.splits)

lemma BindRouteNative_CreatedRouteHandlers:
  "CreatedRouteHandlers (BindRouteNative p v h st) =
     CreatedRouteHandlers st
       @ (if HttpRouter st \<noteq> None \<and> bindable (Engine st) (Direct p v h)
          then [next_handle (Engine st)] else [])"
  by (simp add: BindRouteNative_def Let_def bindable_def Router_BindRoute_def
      Router_RegisterRequestPreprocessor_def MakeHttpPathForRoute_def split: option.splits)

lemma register_CreatedRouteHandlers:
  "CreatedRouteHandlers (register r st) =
     CreatedRouteHandlers st
       @ (if HttpRouter st \<noteq> None \<and> bindable (Engine st) r
          then [next_handle (Engine st)] else [])"
  by (cases r)
    (simp_all only: register.simps BindRoute_CreatedRouteHandlers
      BindRouteNative_CreatedRouteHandlers)

lemma BindRoute_next_handle:
  "next_handle (Engine st) \<le> next_handle (Engine (BindRoute p v d st))"
  "HttpRouter st \<noteq> None \<Longrightarrow> bindable (Engine st) (Callback p v d) \<Longrightarrow>
     next_handle (Engine (BindRoute p v d st)) = Suc (next_handle (Engine st))"
  by (auto simp: BindRoute_def Let_def bindable_def Router_BindRoute_def
      Router_RegisterRequestPreprocessor_def MakeHttpPathForRoute_def split: option.splits)

lemma BindRouteNative_next_handle:
  "next_handle (Engine st) \<le> next_handle (Engine (BindRouteNative p v h st))"
  "HttpRouter st \<noteq> None \<Longrightarrow> bindable (Engine st) (Direct p v h) \<Longrightarrow>
     next_handle (Engine (BindRouteNative p v h st)) = Suc (next_handle (Engine st))"
  by (auto simp: BindRouteNative_def Let_def bindable_def Router_BindRoute_def
      Router_RegisterRequestPreprocessor_def MakeHttpPathForRoute_def split: option.splits)

lemma register_next_handle:
  "next_handle (Engine st) \<le> next_handle (Engine (register r st))"
  "HttpRouter st \<noteq> None \<Longrightarrow> bindable (Engine st) r \<Longrightarrow>
     next_handle (Engine (register r st)) = Suc (next_handle (Engine st))"
  by (cases r; simp add: BindRoute_next_handle BindRouteNative_next_handle)+

lemma register_all_Nil: "register_all [] st = st"
  by (simp add: register_all_def)

lemma register_all_Cons: "register_all (r # regs) st = register_all regs (register r st)"
  by (simp add: register_all_def)

lemma register_all_HttpRouter: "HttpRouter (register_all regs st) = HttpRouter st"
  by (induction regs arbitrary: st)
    (simp_all add: register_all_Nil register_all_Cons register_HttpRouter)

lemma register_all_engine_frame:
  "IsValidPath (Engine (register_all regs st)) = IsValidPath (Engine st)"
  "obtainable (Engine (register_all regs st)) = obtainable (Engine st)"
  "listening (Engine (register_all regs st)) = listening (Engine st)"
  "CurrentServerPort (register_all regs st) = CurrentServerPort st"
  "bServerStarted (register_all regs st) = bServerStarted st"
  by (induction regs arbitrary: st;
      simp add: register_all_Nil register_all_Cons register_engine_frame)+

lemma register_all_next_handle:
  "next_handle (Engine st) \<le> next_handle (Engine (register_all regs st))"
proof (induction regs arbitrary: st)
  case Nil
  then show ?case by (simp add: register_all_Nil)
next
  case (Cons r regs)
  have "next_handle (Engine st) \<le> next_handle (Engine (register r st))"
    by (rule register_next_handle)
  also have "\<dots> \<le> next_handle (Engine (register_all regs (register r st)))"
    by (rule Cons.IH)
  finally show ?case by (simp add: register_all_Cons)
qed

text \<open>With a valid router, the registrations bind exactly their bindable routes, in order.\<close>

lemma register_all_bound_routes:
  assumes "HttpRouter st = Some R"
  shows "map route_spec (bound_routes (routers (Engine (register_all regs st)) R)) =
           map route_spec (bound_routes (routers (Engine st) R))
             @ map reg_spec (filter (bindable (Engine st)) regs)"
  using assms
proof (induction regs arbitrary: st)
  case Nil
  then show ?case by (simp add: register_all_Nil)
next
  case (Cons r regs)
  have R: "HttpRouter (register r st) = Some R"
    using Cons.prems by (simp add: register_HttpRouter)
  have same: "filter (bindable (Engine (register r st))) regs = filter (bindable (Engine st)) regs"
    by (rule filter_cong) (simp_all add: bindable_register)
  have "route_spec (new_route (Engine st) r) = reg_spec r"
    by (simp add: route_spec_def reg_spec_def new_route_def)
  then show ?case
    using Cons.IH [OF R] Cons.prems
    by (simp add: register_all_Cons register_bound_routes same)
qed

text \<open>The handles of the routes bound are appended to \<open>CreatedRouteHandlers\<close>, and are new.\<close>

lemma register_all_handles:
  assumes "HttpRouter st = Some R"
  shows "\<exists>hs. CreatedRouteHandlers (register_all regs st) = CreatedRouteHandlers st @ hs
            \<and> map route_handle (bound_routes (routers (Engine (register_all regs st)) R)) =
                map route_handle (bound_routes (routers (Engine st) R)) @ hs
            \<and> list_all (\<lambda>h. next_handle (Engine st) \<le> h
                              \<and> h < next_handle (Engine (register_all regs st))) hs"
  using assms
proof (induction regs arbitrary: st)
  case Nil
  then show ?case by (simp add: register_all_Nil)
next
  case (Cons r regs)
  let ?st = "register r st"
  have R: "HttpRouter ?st = Some R"
    using Cons.prems by (simp add: register_HttpRouter)
  from Cons.IH [OF R] obtain hs where
    c: "CreatedRouteHandlers (register_all regs ?st) = CreatedRouteHandlers ?st @ hs"
    and b: "map route_handle (bound_routes (routers (Engine (register_all regs ?st)) R)) =
              map route_handle (bound_routes (routers (Engine ?st) R)) @ hs"
    and f: "list_all (\<lambda>h. next_handle (Engine ?st) \<le> h
                           \<and> h < next_handle (Engine (register_all regs ?st))) hs"
    by blast
  let ?h = "if bindable (Engine st) r then [next_handle (Engine st)] else []"
  have le: "next_handle (Engine st) \<le> next_handle (Engine ?st)"
    by (rule register_next_handle)
  have le2: "next_handle (Engine ?st) \<le> next_handle (Engine (register_all regs ?st))"
    by (rule register_all_next_handle)
  have c': "CreatedRouteHandlers (register_all (r # regs) st) = CreatedRouteHandlers st @ (?h @ hs)"
    using c Cons.prems by (simp add: register_all_Cons register_CreatedRouteHandlers)
  have b': "map route_handle (bound_routes (routers (Engine (register_all (r # regs) st)) R)) =
              map route_handle (bound_routes (routers (Engine st) R)) @ (?h @ hs)"
    using b Cons.prems
    by (simp add: register_all_Cons register_bound_routes new_route_def)
  have f1: "list_all (\<lambda>h. next_handle (Engine st) \<le> h
                         \<and> h < next_handle (Engine (register_all (r # regs) st))) hs"
    using f le by (auto simp: list_all_iff register_all_Cons)
  have f2: "list_all (\<lambda>h. next_handle (Engine st) \<le> h
                         \<and> h < next_handle (Engine (register_all (r # regs) st))) ?h"
    using le2 register_next_handle(2) [of st r] Cons.prems
    by (auto simp: register_all_Cons)
  from c' b' f1 f2 show ?case by (intro exI [of _ "?h @ hs"]) simp
qed

lemma register_all_created_handles_issued:
  assumes "created_handles_issued st"
  shows "created_handles_issued (register_all regs st)"
proof (cases "HttpRouter st")
  case None
  have "CreatedRouteHandlers (register_all regs st) = CreatedRouteHandlers st"
    using None
    by (induction regs arbitrary: st)
      (simp_all add: register_all_Nil register_all_Cons register_CreatedRouteHandlers
        register_HttpRouter)
  then show ?thesis
    using assms register_all_next_handle [of st regs]
    by (auto simp: created_handles_issued_def list_all_iff)
next
  case (Some R)
  from register_all_handles [OF Some, of regs] obtain hs where
    "CreatedRouteHandlers (register_all regs st) = CreatedRouteHandlers st @ hs"
    "list_all (\<lambda>h. next_handle (Engine st) \<le> h
                    \<and> h < next_handle (Engine (register_all regs st))) hs"
    by blast
  then show ?thesis
    using assms register_all_next_handle [of st regs]
    by (auto simp: created_handles_issued_def list_all_iff)
qed


lemma StartServer_success:
  assumes "0 < ServerPort" and "obtainable (Engine st) ServerPort"
  shows "StartServer hook ServerPort st =
           (hook (attach ServerPort st))
             \<lparr>Engine := StartAllListeners (Engine (hook (attach ServerPort st))),
              bServerStarted := True\<rparr>"
  using assms
  by (simp add: StartServer_def BindRoutes_def attach_def GetHttpRouter_def Let_def)

lemma attach_fields:
  "HttpRouter (attach port st) = Some port"
  "routers (Engine (attach port st)) = routers (Engine st)"
  "CreatedRouteHandlers (attach port st) = CreatedRouteHandlers st"
  "next_handle (Engine (attach port st)) = next_handle (Engine st)"
  "IsValidPath (Engine (attach port st)) = IsValidPath (Engine st)"
  "obtainable (Engine (attach port st)) = obtainable (Engine st)"
  by (simp_all add: attach_def GetHttpRouter_def)

lemma bindable_attach: "bindable (Engine (attach port st)) = bindable (Engine st)"
  by (rule ext) (simp add: bindable_def attach_fields)

lemma StartServer_fields:
  assumes "0 < port" and "obtainable (Engine st) port"
  shows "HttpRouter (StartServer (register_all regs) port st) = Some port"
    and "bServerStarted (StartServer (register_all regs) port st)"
    and "listening (Engine (StartServer (register_all regs) port st))"
    and "routers (Engine (StartServer (register_all regs) port st)) =
           routers (Engine (register_all regs (attach port st)))"
    and "CreatedRouteHandlers (StartServer (register_all regs) port st) =
           CreatedRouteHandlers (register_all regs (attach port st))"
    and "next_handle (Engine (StartServer (register_all regs) port st)) =
           next_handle (Engine (register_all regs (attach port st)))"
    and "obtainable (Engine (StartServer (register_all regs) port st)) = obtainable (Engine st)"
    and "IsValidPath (Engine (StartServer (register_all regs) port st)) = IsValidPath (Engine st)"
  by (simp_all add: StartServer_success [OF assms] StartAllListeners_def
      register_all_HttpRouter register_all_engine_frame attach_fields)

lemma bound_routes_unbind_all:
  "bound_routes (routers (foldl (\<lambda>m h. Router_UnbindRoute R h m) m hs) R) =
     filter (\<lambda>rt. route_handle rt \<notin> set hs) (bound_routes (routers m R))"
proof (induction hs arbitrary: m)
  case Nil
  then show ?case by simp
next
  case (Cons h hs)
  have "bound_routes (routers (Router_UnbindRoute R h m) R) =
          filter (\<lambda>rt. route_handle rt \<noteq> h) (bound_routes (routers m R))"
    by (simp add: Router_UnbindRoute_def Let_def)
  then show ?case
    by (simp add: Cons.IH)
qed

lemma unbind_all_frame:
  "next_handle (foldl (\<lambda>m h. Router_UnbindRoute R h m) m hs) = next_handle m"
  "obtainable (foldl (\<lambda>m h. Router_UnbindRoute R h m) m hs) = obtainable m"
  "IsValidPath (foldl (\<lambda>m h. Router_UnbindRoute R h m) m hs) = IsValidPath m"
  by (induction hs arbitrary: m; simp add: Router_UnbindRoute_def Let_def)+

lemma StopServer_bound_routes:
  "HttpRouter st = Some R \<Longrightarrow>
   bound_routes (routers (Engine (StopServer st)) R) =
     filter (\<lambda>rt. route_handle rt \<notin> set (CreatedRouteHandlers st))
       (bound_routes (routers (Engine st) R))"
  by (simp add: StopServer_def Let_def bound_routes_unbind_all StopAllListeners_def
      Router_UnregisterRequestPreprocessor_def)

lemma StopServer_engine_frame:
  "next_handle (Engine (StopServer st)) = next_handle (Engine st)"
  "obtainable (Engine (StopServer st)) = obtainable (Engine st)"
  "IsValidPath (Engine (StopServer st)) = IsValidPath (Engine st)"
  by (simp_all add: StopServer_def Let_def unbind_all_frame StopAllListeners_def
      Router_UnregisterRequestPreprocessor_def split: option.splits)

lemma StartServer_bound_routes:
  assumes "0 < port" and "obtainable (Engine st) port"
  shows "map route_spec (bound_routes (routers (Engine (StartServer (register_all regs) port st)) port)) =
           map route_spec (bound_routes (routers (Engine st) port))
             @ map reg_spec (filter (bindable (Engine st)) regs)"
  using register_all_bound_routes [of "attach port st" port regs]
  by (simp add: StartServer_fields [OF assms] attach_fields bindable_attach)

lemma StartServer_handles:
  assumes "0 < port" and "obtainable (Engine st) port"
  shows "\<exists>hs. CreatedRouteHandlers (StartServer (register_all regs) port st) =
                CreatedRouteHandlers st @ hs
            \<and> map route_handle (bound_routes (routers (Engine (StartServer (register_all regs) port st)) port)) =
                map route_handle (bound_routes (routers (Engine st) port)) @ hs
            \<and> list_all (\<lambda>h. next_handle (Engine st) \<le> h) hs"
proof -
  from register_all_handles [of "attach port st" port regs] obtain hs where
    "CreatedRouteHandlers (register_all regs (attach port st)) = CreatedRouteHandlers st @ hs"
    "map route_handle (bound_routes (routers (Engine (register_all regs (attach port st))) port)) =
       map route_handle (bound_routes (routers (Engine st) port)) @ hs"
    "list_all (\<lambda>h. next_handle (Engine st) \<le> h
                    \<and> h < next_handle (Engine (register_all regs (attach port st)))) hs"
    by (auto simp: attach_fields)
  then show ?thesis
    by (intro exI [of _ hs]) (auto simp: StartServer_fields [OF assms] list_all_iff)
qed

lemma StartServer_created_handles_issued:
  assumes "0 < port" and "obtainable (Engine st) port" and "created_handles_issued st"
  shows "created_handles_issued (StartServer (register_all regs) port st)"
proof -
  have "created_handles_issued (attach port st)"
    using assms(3) by (simp add: created_handles_issued_def attach_fields)
  then have "created_handles_issued (register_all regs (attach port st))"
    by (rule register_all_created_handles_issued)
  then show ?thesis
    by (simp add: created_handles_issued_def StartServer_fields [OF assms(1,2)])
qed


section \<open>Claims: start, stop and restart\<close>

text \<open>
  C1, as the code has it. The claim says that a successful start binds every route that
  is in the table. \<open>StartServer\<close> does not read the table: it calls \<open>BindRoutes\<close>, and a
  route registered earlier, when no router was attached, was only stored (\<open>BindRoute\<close>
  reports "router is invalid"). With \<open>/old\<close> registered before the start and a
  \<open>ReceiveBindRoutes\<close> that registers nothing, the server is started, the table has
  \<open>/old\<close>, and the router has no route: a GET of \<open>/old\<close> is not handled.
\<close>

theorem start_does_not_bind_table:
  "bServerStarted (StartServer (\<lambda>st. st) 8080 registered_early)
   \<and> HttpRouter (StartServer (\<lambda>st. st) 8080 registered_early) = Some 8080
   \<and> RouteDelegates (StartServer (\<lambda>st. st) 8080 registered_early) ''/old''
       = Some (BoundTo (\<lambda>_. example_response))
   \<and> RouteVerbs (StartServer (\<lambda>st. st) 8080 registered_early) ''/old'' = Some VERB_GET
   \<and> bound_routes (routers (Engine (StartServer (\<lambda>st. st) 8080 registered_early)) 8080) = []
   \<and> listener_dispatch (StartServer (\<lambda>st. st) 8080 registered_early)
        (example_request ''/old'' (ucast VERB_GET)) = not_handled"
proof -
  have e: "StartServer (\<lambda>st. st) 8080 registered_early =
     \<lparr>CurrentServerPort = 8080, HttpRouter = Some 8080, bServerStarted = True,
      bRootPreprocessorRegistered = False, RootRequestPreprocessorHandle = 0,
      RouteDelegates = [''/old'' \<mapsto> BoundTo (\<lambda>_. example_response)],
      RouteVerbs = [''/old'' \<mapsto> VERB_GET], RouteHandlers = Map.empty,
      CreatedRouteHandlers = [],
      Engine = fresh_engine\<lparr>listening := True,
                 calls := [GetHttpRouter_call 8080, StartAllListeners_call]\<rparr>\<rparr>"
    by (simp add: registered_early_def server_eval engine_eval normalize_eval)
  show ?thesis
    by (simp add: e fresh_engine_def listener_dispatch_def matching_routes_def not_handled_def)
qed

text \<open>
  C1, amended: a successful start (port above zero, router obtainable) attaches the router
  and runs \<open>ReceiveBindRoutes\<close>; when that makes the registrations \<open>regs\<close>, exactly
  those of them with a non-root path that the engine accepts are bound into the router,
  in order, after the routes that were there, and their handles are appended to
  \<open>CreatedRouteHandlers\<close>; nothing else of the table is bound. Stopping unbinds every
  handle of \<open>CreatedRouteHandlers\<close>. Starting again binds the registrations of
  \<open>ReceiveBindRoutes\<close> again, and no route with a handle created before the stop is
  left in the router (the handles having been issued by the engine).
\<close>

theorem start_binds_what_the_hook_registers:
  assumes "0 < port" and "obtainable (Engine st) port"
  shows "bServerStarted (StartServer (register_all regs) port st)
     \<and> HttpRouter (StartServer (register_all regs) port st) = Some port
     \<and> listening (Engine (StartServer (register_all regs) port st))
     \<and> map route_spec (bound_routes (routers (Engine (StartServer (register_all regs) port st)) port)) =
         map route_spec (bound_routes (routers (Engine st) port))
           @ map reg_spec (filter (bindable (Engine st)) regs)
     \<and> (\<exists>hs. CreatedRouteHandlers (StartServer (register_all regs) port st) =
                 CreatedRouteHandlers st @ hs
             \<and> map route_handle
                 (bound_routes (routers (Engine (StartServer (register_all regs) port st)) port)) =
                 map route_handle (bound_routes (routers (Engine st) port)) @ hs)
     \<and> bound_routes (routers (Engine (StopServer (StartServer (register_all regs) port st))) port) =
         filter (\<lambda>rt. route_handle rt
                        \<notin> set (CreatedRouteHandlers (StartServer (register_all regs) port st)))
           (bound_routes (routers (Engine (StartServer (register_all regs) port st)) port))
     \<and> bServerStarted
         (StartServer (register_all regs) port
            (StopServer (StartServer (register_all regs) port st)))
     \<and> map route_spec
         (bound_routes (routers (Engine
            (StartServer (register_all regs) port
               (StopServer (StartServer (register_all regs) port st)))) port)) =
         map route_spec
           (bound_routes (routers (Engine (StopServer (StartServer (register_all regs) port st))) port))
           @ map reg_spec (filter (bindable (Engine st)) regs)
     \<and> (created_handles_issued st \<longrightarrow>
         filter (\<lambda>rt. route_handle rt
                        \<in> set (CreatedRouteHandlers (StartServer (register_all regs) port st)))
           (bound_routes (routers (Engine
              (StartServer (register_all regs) port
                 (StopServer (StartServer (register_all regs) port st)))) port)) = [])"
proof -
  let ?s1 = "StartServer (register_all regs) port st"
  let ?s2 = "StopServer ?s1"
  let ?s3 = "StartServer (register_all regs) port ?s2"
  note f1 = StartServer_fields [OF assms, of regs]
  have R1: "HttpRouter ?s1 = Some port" by (rule f1)
  have ob2: "obtainable (Engine ?s2) port"
    using assms(2) by (simp add: StopServer_engine_frame f1)
  have same: "bindable (Engine ?s2) = bindable (Engine st)"
    by (rule ext) (simp add: bindable_def StopServer_engine_frame f1)
  have a: "bServerStarted ?s1 \<and> HttpRouter ?s1 = Some port \<and> listening (Engine ?s1)"
    by (simp add: f1)
  have b: "map route_spec (bound_routes (routers (Engine ?s1) port)) =
             map route_spec (bound_routes (routers (Engine st) port))
               @ map reg_spec (filter (bindable (Engine st)) regs)"
    by (rule StartServer_bound_routes [OF assms])
  have c: "\<exists>hs. CreatedRouteHandlers ?s1 = CreatedRouteHandlers st @ hs
             \<and> map route_handle (bound_routes (routers (Engine ?s1) port)) =
                 map route_handle (bound_routes (routers (Engine st) port)) @ hs"
    using StartServer_handles [OF assms, of regs] by blast
  have d: "bound_routes (routers (Engine ?s2) port) =
             filter (\<lambda>rt. route_handle rt \<notin> set (CreatedRouteHandlers ?s1))
               (bound_routes (routers (Engine ?s1) port))"
    by (rule StopServer_bound_routes [OF R1])
  have e: "bServerStarted ?s3"
    by (rule StartServer_fields(2) [OF assms(1) ob2])
  have f: "map route_spec (bound_routes (routers (Engine ?s3) port)) =
             map route_spec (bound_routes (routers (Engine ?s2) port))
               @ map reg_spec (filter (bindable (Engine st)) regs)"
    using StartServer_bound_routes [OF assms(1) ob2, of regs] by (simp add: same)
  have g: "filter (\<lambda>rt. route_handle rt \<in> set (CreatedRouteHandlers ?s1))
             (bound_routes (routers (Engine ?s3) port)) = []"
    if issued: "created_handles_issued st"
  proof -
    have i1: "created_handles_issued ?s1"
      by (rule StartServer_created_handles_issued [OF assms issued])
    from StartServer_handles [OF assms(1) ob2, of regs] obtain hs where
      hs: "map route_handle (bound_routes (routers (Engine ?s3) port)) =
             map route_handle (bound_routes (routers (Engine ?s2) port)) @ hs"
      and new: "list_all (\<lambda>h. next_handle (Engine ?s2) \<le> h) hs"
      by blast
    have "h \<notin> set (CreatedRouteHandlers ?s1)"
      if "h \<in> set (map route_handle (bound_routes (routers (Engine ?s3) port)))" for h
    proof -
      from that hs consider
        "h \<in> set (map route_handle (bound_routes (routers (Engine ?s2) port)))" | "h \<in> set hs"
        by auto
      then show ?thesis
      proof cases
        case 1
        then show ?thesis by (auto simp: d)
      next
        case 2
        then have "next_handle (Engine ?s1) \<le> h"
          using new by (simp add: list_all_iff StopServer_engine_frame)
        then show ?thesis
          using i1 by (auto simp: created_handles_issued_def list_all_iff)
      qed
    qed
    then show ?thesis by (auto simp: filter_empty_conv)
  qed
  from a b c d e f g show ?thesis by blast
qed


lemma registered_early_fields:
  "obtainable (Engine registered_early) 8080"
  "created_handles_issued registered_early"
  "bound_routes (routers (Engine registered_early) 8080) = []"
  "IsValidPath (Engine registered_early) = (\<lambda>_. True)"
  by (simp_all add: registered_early_def created_handles_issued_def server_eval engine_eval
      normalize_eval)

lemma example_hook_bindable:
  "map reg_spec (filter (bindable (Engine registered_early)) example_hook) =
     [(''/a'', 1, CallsHandleRequest ''/a''), (''/c'', 2, CallsHandleRequestNative ''/c'')]"
  by (simp add: example_hook_def bindable_def reg_spec_def registered_early_fields normalize_eval
      VERB_GET_def VERB_POST_def)

lemma example_start_fields:
  "CreatedRouteHandlers (StartServer (register_all example_hook) 8080 registered_early) = [0, 2]"
  "bound_routes (routers (Engine (StartServer (register_all example_hook) 8080 registered_early)) 8080) =
     [\<lparr>route_handle = 0, route_path = ''/a'', route_verbs = 1,
        route_lambda = CallsHandleRequest ''/a''\<rparr>,
      \<lparr>route_handle = 2, route_path = ''/c'', route_verbs = 2,
        route_lambda = CallsHandleRequestNative ''/c''\<rparr>]"
  by (simp_all add: registered_early_def example_hook_def register_all_def server_eval engine_eval
      normalize_eval VERB_GET_def VERB_POST_def)

theorem start_binds_what_the_hook_registers_witness:
  "(0::int) < 8080 \<and> obtainable (Engine registered_early) 8080
   \<and> created_handles_issued registered_early
   \<and> RouteDelegates registered_early ''/old'' = Some (BoundTo (\<lambda>_. example_response))
   \<and> map route_spec
       (bound_routes (routers (Engine (StartServer (register_all example_hook) 8080 registered_early)) 8080)) =
       [(''/a'', 1, CallsHandleRequest ''/a''), (''/c'', 2, CallsHandleRequestNative ''/c'')]
   \<and> bound_routes (routers (Engine (StopServer
         (StartServer (register_all example_hook) 8080 registered_early))) 8080) = []
   \<and> map route_spec
       (bound_routes (routers (Engine
          (StartServer (register_all example_hook) 8080
             (StopServer (StartServer (register_all example_hook) 8080 registered_early)))) 8080)) =
       [(''/a'', 1, CallsHandleRequest ''/a''), (''/c'', 2, CallsHandleRequestNative ''/c'')]
   \<and> filter (\<lambda>rt. route_handle rt \<in> {0, 2})
       (bound_routes (routers (Engine
          (StartServer (register_all example_hook) 8080
             (StopServer (StartServer (register_all example_hook) 8080 registered_early)))) 8080)) = []"
proof -
  have p: "(0::int) < 8080" by simp
  have old: "RouteDelegates registered_early ''/old'' = Some (BoundTo (\<lambda>_. example_response))"
    by (simp add: registered_early_def server_eval engine_eval normalize_eval)
  show ?thesis
    using start_binds_what_the_hook_registers
      [OF p registered_early_fields(1), of example_hook]
    by (simp add: registered_early_fields example_hook_bindable example_start_fields old)
qed

section \<open>Helper lemmas: the root preprocessor\<close>

lemma verb_allowed_at_root_iff:
  "verb_allowed_at_root st Request \<longleftrightarrow>
     (RouteVerbs st ''/'' = None
      \<or> (\<exists>AllowedVerbs. RouteVerbs st ''/'' = Some AllowedVerbs
             \<and> VerbsMatch AllowedVerbs (req_Verb Request)))"
  by (simp add: verb_allowed_at_root_def split: option.splits)

lemma RootRequestPreprocessor_returned_iff:
  "returned (RootRequestPreprocessor st Request) \<longleftrightarrow>
     (IsRoot (req_RelativePath Request) \<and> verb_allowed_at_root st Request
      \<and> (RouteDelegates st ''/'' \<noteq> None \<or> RouteHandlers st ''/'' \<noteq> None))"
  by (auto simp: RootRequestPreprocessor_def verb_allowed_at_root_def not_handled_def
      HandleRequest_returns HandleRequestNative_returns split: option.splits)

lemma registered_around_start_root:
  "HttpRouter (registered_around_start ''/'') = Some 8080"
  "RouteVerbs (registered_around_start ''/'') ''/'' = Some 3"
  "RouteDelegates (registered_around_start ''/'') ''/'' = Some (BoundTo (\<lambda>_. example_response))"
  "preprocessors (routers (Engine (registered_around_start ''/'')) 8080) = [0]"
  "bound_routes (routers (Engine (registered_around_start ''/'')) 8080) = []"
  by (simp_all add: registered_around_start_def server_eval engine_eval normalize_eval
      VERB_GET_def VERB_POST_def)

lemma registered_around_start_other:
  "HttpRouter (registered_around_start ''/x'') = Some 8080"
  "RouteVerbs (registered_around_start ''/x'') ''/x'' = Some 3"
  "RouteDelegates (registered_around_start ''/x'') ''/x'' = Some (BoundTo (\<lambda>_. example_response))"
  "preprocessors (routers (Engine (registered_around_start ''/x'')) 8080) = []"
  "bound_routes (routers (Engine (registered_around_start ''/x'')) 8080) =
     [\<lparr>route_handle = 0, route_path = ''/x'', route_verbs = 2,
        route_lambda = CallsHandleRequest ''/x''\<rparr>]"
  by (simp_all add: registered_around_start_def server_eval engine_eval normalize_eval
      VERB_GET_def VERB_POST_def)

section \<open>Claims: the root preprocessor\<close>

text \<open>
  C5, as the code has it. The claim says that a request for the root is under the same
  verb-mask rule as a request for any other path. The root preprocessor tests the verb
  against the merged mask of the table, \<open>RouteVerbs["/"]\<close>; a route of another path is
  bound with the verbs of its own registration only. After the same two registrations
  (GET before the start, POST after it) the table holds the mask GET|POST for \<open>/\<close> and
  for \<open>/x\<close>; a GET of \<open>/\<close> is handled by the preprocessor, which runs the callback,
  while the only route of \<open>/x\<close> is bound for POST and a GET of \<open>/x\<close> matches nothing.
\<close>

theorem root_verb_rule_is_not_the_routes:
  "RouteVerbs (registered_around_start ''/'') ''/'' = Some (VERB_GET OR VERB_POST)
   \<and> RouteVerbs (registered_around_start ''/x'') ''/x'' = Some (VERB_GET OR VERB_POST)
   \<and> RootRequestPreprocessor (registered_around_start ''/'') (example_request ''/'' (ucast VERB_GET)) =
       \<lparr>returned = True, completed = [HttpServerResponse example_response],
        invoked = [Executed (BoundTo (\<lambda>_. example_response))
                     (FillNativeRequst (example_request ''/'' (ucast VERB_GET)) empty_native_request)]\<rparr>
   \<and> returned (listener_dispatch (registered_around_start ''/'')
                 (example_request ''/'' (ucast VERB_GET)))
   \<and> map route_verbs (bound_routes (routers (Engine (registered_around_start ''/x'')) 8080)) =
       [ucast VERB_POST]
   \<and> matching_routes (registered_around_start ''/x'') (example_request ''/x'' (ucast VERB_GET)) = []
   \<and> listener_dispatch (registered_around_start ''/x'') (example_request ''/x'' (ucast VERB_GET)) =
       not_handled"
proof -
  have v: "(ucast VERB_GET :: 16 word) = 1" "(ucast VERB_POST :: 16 word) = 2"
    "VERB_GET OR VERB_POST = (3 :: 8 word)"
    by (simp_all add: VERB_GET_def VERB_POST_def)
  have root: "IsRoot (req_RelativePath (example_request ''/'' 1))"
    by (simp add: IsRoot_def example_request_def)
  have allowed: "verb_allowed_at_root (registered_around_start ''/'') (example_request ''/'' 1)"
    by (simp add: verb_allowed_at_root_def registered_around_start_root VerbsMatch_def
        example_request_def)
  have pre: "RootRequestPreprocessor (registered_around_start ''/'') (example_request ''/'' 1) =
       \<lparr>returned = True, completed = [HttpServerResponse example_response],
        invoked = [Executed (BoundTo (\<lambda>_. example_response))
                     (FillNativeRequst (example_request ''/'' 1) empty_native_request)]\<rparr>"
    using root allowed
    by (simp add: RootRequestPreprocessor_callback HandleRequest_bound registered_around_start_root)
  have l: "returned (listener_dispatch (registered_around_start ''/'') (example_request ''/'' 1))"
    by (simp add: listener_dispatch_def registered_around_start_root pre)
  have m: "matching_routes (registered_around_start ''/x'') (example_request ''/x'' 1) = []"
    by (simp add: matching_routes_def registered_around_start_other route_matches_def
        example_request_def)
  have n: "listener_dispatch (registered_around_start ''/x'') (example_request ''/x'' 1) = not_handled"
    by (simp add: listener_dispatch_def registered_around_start_other m not_handled_def)
  show ?thesis
    by (simp add: v registered_around_start_root registered_around_start_other pre l m n)
qed

text \<open>
  C5, amended: the root preprocessor returns "not handled", without running or
  completing anything, for a request whose path is not the root, and for a root request
  whose verb is not in the merged mask that the table holds for \<open>"/"\<close> (the test is
  bitwise AND non-zero; there is no test when the table has no mask for \<open>"/"\<close>).
  Otherwise it dispatches to the handler registered for \<open>"/"\<close> and returns "handled": a
  bound callback is run and its response completes the request, an unbound one gives the
  Not-Found response, and with no callback the direct handler is run. It returns
  "handled" exactly for a root request with an allowed verb and a handler of either kind.
  A registration of \<open>"/"\<close> with a valid router binds no route: it registers the
  preprocessor (once). A registration of another path that binds a route binds it with the
  verbs of that registration, not with the merged mask.
\<close>

theorem root_preprocessor_contract:
  "(\<not> IsRoot (req_RelativePath Request) \<longrightarrow> RootRequestPreprocessor st Request = not_handled)
   \<and> (IsRoot (req_RelativePath Request) \<and> RouteVerbs st ''/'' = Some AllowedVerbs
        \<and> \<not> VerbsMatch AllowedVerbs (req_Verb Request) \<longrightarrow>
       RootRequestPreprocessor st Request = not_handled)
   \<and> (VerbsMatch AllowedVerbs (req_Verb Request) \<longleftrightarrow>
        AllowedVerbs AND ucast (req_Verb Request) \<noteq> 0)
   \<and> (verb_allowed_at_root st Request \<longleftrightarrow>
        (RouteVerbs st ''/'' = None
         \<or> (\<exists>Mask. RouteVerbs st ''/'' = Some Mask \<and> VerbsMatch Mask (req_Verb Request))))
   \<and> (IsRoot (req_RelativePath Request) \<and> verb_allowed_at_root st Request
        \<and> RouteDelegates st ''/'' = Some (BoundTo f) \<longrightarrow>
       RootRequestPreprocessor st Request =
         \<lparr>returned = True,
          completed = [HttpServerResponse (f (FillNativeRequst Request empty_native_request))],
          invoked = [Executed (BoundTo f) (FillNativeRequst Request empty_native_request)]\<rparr>)
   \<and> (IsRoot (req_RelativePath Request) \<and> verb_allowed_at_root st Request
        \<and> RouteDelegates st ''/'' = Some Unbound \<longrightarrow>
       RootRequestPreprocessor st Request =
         \<lparr>returned = True, completed = [FHttpServerResponse_Error NotFound], invoked = []\<rparr>)
   \<and> (IsRoot (req_RelativePath Request) \<and> verb_allowed_at_root st Request
        \<and> RouteDelegates st ''/'' = None \<and> RouteHandlers st ''/'' = Some h \<longrightarrow>
       RootRequestPreprocessor st Request =
         \<lparr>returned = True, completed = [],
          invoked = [Called h (FillNativeRequst Request empty_native_request)]\<rparr>)
   \<and> (returned (RootRequestPreprocessor st Request) \<longleftrightarrow>
        IsRoot (req_RelativePath Request) \<and> verb_allowed_at_root st Request
        \<and> (RouteDelegates st ''/'' \<noteq> None \<or> RouteHandlers st ''/'' \<noteq> None))
   \<and> (HttpRouter st = Some R \<and> NormalizeHttpPath p = ''/'' \<longrightarrow>
       bound_routes (routers (Engine (BindRoute p v d st)) R) = bound_routes (routers (Engine st) R)
       \<and> CreatedRouteHandlers (BindRoute p v d st) = CreatedRouteHandlers st
       \<and> bRootPreprocessorRegistered (BindRoute p v d st)
       \<and> preprocessors (routers (Engine (BindRoute p v d st)) R) =
           (if bRootPreprocessorRegistered st then preprocessors (routers (Engine st) R)
            else preprocessors (routers (Engine st) R)
                   @ [RootRequestPreprocessorHandle (BindRoute p v d st)])
       \<and> RouteDelegates (BindRoute p v d st) ''/'' = Some d
       \<and> bound_routes (routers (Engine (BindRouteNative p v g st)) R) =
           bound_routes (routers (Engine st) R)
       \<and> CreatedRouteHandlers (BindRouteNative p v g st) = CreatedRouteHandlers st
       \<and> bRootPreprocessorRegistered (BindRouteNative p v g st)
       \<and> preprocessors (routers (Engine (BindRouteNative p v g st)) R) =
           (if bRootPreprocessorRegistered st then preprocessors (routers (Engine st) R)
            else preprocessors (routers (Engine st) R)
                   @ [RootRequestPreprocessorHandle (BindRouteNative p v g st)])
       \<and> RouteHandlers (BindRouteNative p v g st) ''/'' = Some g)
   \<and> (HttpRouter st = Some R \<and> NormalizeHttpPath p \<noteq> ''/''
        \<and> IsValidPath (Engine st) (NormalizeHttpPath p) \<longrightarrow>
       bound_routes (routers (Engine (BindRoute p v d st)) R) =
         bound_routes (routers (Engine st) R)
           @ [\<lparr>route_handle = next_handle (Engine st), route_path = NormalizeHttpPath p,
               route_verbs = ucast v, route_lambda = CallsHandleRequest (NormalizeHttpPath p)\<rparr>]
       \<and> bound_routes (routers (Engine (BindRouteNative p v g st)) R) =
         bound_routes (routers (Engine st) R)
           @ [\<lparr>route_handle = next_handle (Engine st), route_path = NormalizeHttpPath p,
               route_verbs = ucast v,
               route_lambda = CallsHandleRequestNative (NormalizeHttpPath p)\<rparr>])"
proof -
  have 1: "\<not> IsRoot (req_RelativePath Request) \<longrightarrow> RootRequestPreprocessor st Request = not_handled"
    by (simp add: RootRequestPreprocessor_not_root)
  have 2: "IsRoot (req_RelativePath Request) \<and> RouteVerbs st ''/'' = Some AllowedVerbs
        \<and> \<not> VerbsMatch AllowedVerbs (req_Verb Request) \<longrightarrow>
       RootRequestPreprocessor st Request = not_handled"
    by (simp add: RootRequestPreprocessor_verb_refused)
  have 3: "VerbsMatch AllowedVerbs (req_Verb Request) \<longleftrightarrow>
        AllowedVerbs AND ucast (req_Verb Request) \<noteq> 0"
    by (simp add: VerbsMatch_def)
  note 4 = verb_allowed_at_root_iff [of st Request]
  have 5: "RootRequestPreprocessor st Request =
         \<lparr>returned = True,
          completed = [HttpServerResponse (f (FillNativeRequst Request empty_native_request))],
          invoked = [Executed (BoundTo f) (FillNativeRequst Request empty_native_request)]\<rparr>"
    if "IsRoot (req_RelativePath Request)" "verb_allowed_at_root st Request"
      "RouteDelegates st ''/'' = Some (BoundTo f)"
    using that by (simp add: RootRequestPreprocessor_callback HandleRequest_bound)
  have 6: "RootRequestPreprocessor st Request =
         \<lparr>returned = True, completed = [FHttpServerResponse_Error NotFound], invoked = []\<rparr>"
    if "IsRoot (req_RelativePath Request)" "verb_allowed_at_root st Request"
      "RouteDelegates st ''/'' = Some Unbound"
    using that by (simp add: RootRequestPreprocessor_callback HandleRequest_unbound)
  have 7: "RootRequestPreprocessor st Request =
         \<lparr>returned = True, completed = [],
          invoked = [Called h (FillNativeRequst Request empty_native_request)]\<rparr>"
    if "IsRoot (req_RelativePath Request)" "verb_allowed_at_root st Request"
      "RouteDelegates st ''/'' = None" "RouteHandlers st ''/'' = Some h"
    using that by (simp add: RootRequestPreprocessor_direct HandleRequestNative_found)
  note 8 = RootRequestPreprocessor_returned_iff [of st Request]
  have 9: "bound_routes (routers (Engine (BindRoute p v d st)) R) = bound_routes (routers (Engine st) R)
       \<and> CreatedRouteHandlers (BindRoute p v d st) = CreatedRouteHandlers st
       \<and> bRootPreprocessorRegistered (BindRoute p v d st)
       \<and> preprocessors (routers (Engine (BindRoute p v d st)) R) =
           (if bRootPreprocessorRegistered st then preprocessors (routers (Engine st) R)
            else preprocessors (routers (Engine st) R)
                   @ [RootRequestPreprocessorHandle (BindRoute p v d st)])
       \<and> RouteDelegates (BindRoute p v d st) ''/'' = Some d
       \<and> bound_routes (routers (Engine (BindRouteNative p v g st)) R) =
           bound_routes (routers (Engine st) R)
       \<and> CreatedRouteHandlers (BindRouteNative p v g st) = CreatedRouteHandlers st
       \<and> bRootPreprocessorRegistered (BindRouteNative p v g st)
       \<and> preprocessors (routers (Engine (BindRouteNative p v g st)) R) =
           (if bRootPreprocessorRegistered st then preprocessors (routers (Engine st) R)
            else preprocessors (routers (Engine st) R)
                   @ [RootRequestPreprocessorHandle (BindRouteNative p v g st)])
       \<and> RouteHandlers (BindRouteNative p v g st) ''/'' = Some g"
    if r: "HttpRouter st = Some R" and n: "NormalizeHttpPath p = ''/''"
    using BindRoute_root [OF r n, of v d] BindRouteNative_root [OF r n, of v g]
    by (simp add: BindRoute_RouteDelegates BindRouteNative_RouteHandlers n)
  have 10: "bound_routes (routers (Engine (BindRoute p v d st)) R) =
         bound_routes (routers (Engine st) R)
           @ [\<lparr>route_handle = next_handle (Engine st), route_path = NormalizeHttpPath p,
               route_verbs = ucast v, route_lambda = CallsHandleRequest (NormalizeHttpPath p)\<rparr>]
       \<and> bound_routes (routers (Engine (BindRouteNative p v g st)) R) =
         bound_routes (routers (Engine st) R)
           @ [\<lparr>route_handle = next_handle (Engine st), route_path = NormalizeHttpPath p,
               route_verbs = ucast v,
               route_lambda = CallsHandleRequestNative (NormalizeHttpPath p)\<rparr>]"
    if "HttpRouter st = Some R" "NormalizeHttpPath p \<noteq> ''/''"
      "IsValidPath (Engine st) (NormalizeHttpPath p)"
    using that
    by (simp add: BindRoute_bound_routes BindRouteNative_bound_routes bindable_def new_route_def)
  have c5: "IsRoot (req_RelativePath Request) \<and> verb_allowed_at_root st Request
        \<and> RouteDelegates st ''/'' = Some (BoundTo f) \<longrightarrow>
       RootRequestPreprocessor st Request =
         \<lparr>returned = True,
          completed = [HttpServerResponse (f (FillNativeRequst Request empty_native_request))],
          invoked = [Executed (BoundTo f) (FillNativeRequst Request empty_native_request)]\<rparr>"
    using 5 by blast
  have c6: "IsRoot (req_RelativePath Request) \<and> verb_allowed_at_root st Request
        \<and> RouteDelegates st ''/'' = Some Unbound \<longrightarrow>
       RootRequestPreprocessor st Request =
         \<lparr>returned = True, completed = [FHttpServerResponse_Error NotFound], invoked = []\<rparr>"
    using 6 by blast
  have c7: "IsRoot (req_RelativePath Request) \<and> verb_allowed_at_root st Request
        \<and> RouteDelegates st ''/'' = None \<and> RouteHandlers st ''/'' = Some h \<longrightarrow>
       RootRequestPreprocessor st Request =
         \<lparr>returned = True, completed = [],
          invoked = [Called h (FillNativeRequst Request empty_native_request)]\<rparr>"
    using 7 by blast
  show ?thesis
    apply (intro conjI)
             apply (rule 1)
            apply (rule 2)
           apply (rule 3)
          apply (rule 4)
         apply (rule c5)
        apply (rule c6)
       apply (rule c7)
      apply (rule 8)
     apply (rule impI, erule conjE, rule 9, assumption, assumption)
    apply (rule impI, (erule conjE)+, rule 10, assumption, assumption, assumption)
    done
qed

theorem root_preprocessor_contract_witness:
  "RootRequestPreprocessor root_both (example_request ''/b'' 1) = not_handled
   \<and> RootRequestPreprocessor root_both (example_request ''/'' 16) = not_handled
   \<and> verb_allowed_at_root root_both (example_request ''/'' 2)
   \<and> RootRequestPreprocessor root_both (example_request ''/'' 2) =
       \<lparr>returned = True, completed = [HttpServerResponse example_response],
        invoked = [Executed (BoundTo (\<lambda>_. example_response))
                     (FillNativeRequst (example_request ''/'' 2) empty_native_request)]\<rparr>
   \<and> bound_routes (routers (Engine (BindRoute ''/'' VERB_GET Unbound started)) 8080) = []
   \<and> bRootPreprocessorRegistered (BindRoute ''/'' VERB_GET Unbound started)
   \<and> bound_routes (routers (Engine (BindRoute ''/x/'' VERB_POST Unbound started)) 8080) =
       [\<lparr>route_handle = 0, route_path = ''/x'', route_verbs = 2,
          route_lambda = CallsHandleRequest ''/x''\<rparr>]"
proof -
  have n: "NormalizeHttpPath ''/'' = ''/''" "NormalizeHttpPath ''/x/'' = ''/x''"
    by (simp_all add: normalize_eval)
  have r: "HttpRouter started = Some 8080" "bound_routes (routers (Engine started) 8080) = []"
    "IsValidPath (Engine started) ''/x''" "next_handle (Engine started) = 0"
    by (simp_all add: started_eval fresh_engine_def)
  have a: "RootRequestPreprocessor root_both (example_request ''/b'' 1) = not_handled"
    using root_preprocessor_contract [where Request = "example_request ''/b'' 1" and st = root_both]
    by (simp add: IsRoot_def example_request_def)
  have b: "RootRequestPreprocessor root_both (example_request ''/'' 16) = not_handled"
    using root_preprocessor_contract
      [where Request = "example_request ''/'' 16" and st = root_both and AllowedVerbs = 3]
    by (simp add: IsRoot_def example_request_def root_both_fields VerbsMatch_def)
  have al: "verb_allowed_at_root root_both (example_request ''/'' 2)"
    by (simp add: verb_allowed_at_root_def root_both_fields VerbsMatch_def example_request_def)
  have ro: "IsRoot (req_RelativePath (example_request ''/'' 2))"
    by (simp add: IsRoot_def example_request_def)
  have c: "RootRequestPreprocessor root_both (example_request ''/'' 2) =
       \<lparr>returned = True, completed = [HttpServerResponse example_response],
        invoked = [Executed (BoundTo (\<lambda>_. example_response))
                     (FillNativeRequst (example_request ''/'' 2) empty_native_request)]\<rparr>"
    using al ro root_preprocessor_contract
      [where Request = "example_request ''/'' 2" and st = root_both
         and f = "\<lambda>_. example_response"]
    by (simp add: root_both_fields)
  have d: "bound_routes (routers (Engine (BindRoute ''/'' VERB_GET Unbound started)) 8080) = []
           \<and> bRootPreprocessorRegistered (BindRoute ''/'' VERB_GET Unbound started)"
    using root_preprocessor_contract
      [where st = started and R = 8080 and p = "''/''" and v = VERB_GET and d = Unbound]
    by (simp add: n r)
  have e: "bound_routes (routers (Engine (BindRoute ''/x/'' VERB_POST Unbound started)) 8080) =
       [\<lparr>route_handle = 0, route_path = ''/x'', route_verbs = 2,
          route_lambda = CallsHandleRequest ''/x''\<rparr>]"
    using root_preprocessor_contract
      [where st = started and R = 8080 and p = "''/x/''" and v = VERB_POST and d = Unbound]
    by (simp add: n r VERB_POST_def)
  from a b al c d e show ?thesis by simp
qed

end
